theory Spec2Isabelle
  imports Complex_Main "HOL-Library.Multiset" "HOL-Library.Sublist"
begin

section \<open>Data model\<close>

text \<open>
  The interface \<open>PredictionData\<close> of \<open>types/prediction.ts\<close>. TypeScript types are erased
  at run time, so \<open>sport\<close> and \<open>confidenceCategory\<close> are the strings the route handler
  compares. A \<open>number\<close> field holds a finite value and is modelled exactly. Strings are
  Isabelle strings; the letters of the mock data outside ASCII are written as their
  UTF-8 octets, an apostrophe as \<open>CHR 0x27\<close>. The field \<open>id\<close> is named \<open>id'\<close>, since \<open>id\<close> is the identity of HOL.
\<close>

record PredictionData =
  id' :: string
  player :: string
  team :: string
  opponent :: string
  gameTime :: string
  sport :: string
  stat :: string
  line :: real
  predictedValue :: real
  overProbability :: real
  confidence :: real
  confidenceCategory :: string
  keyFactors :: "string list"

text \<open>The interfaces \<open>PredictionsResponse\<close> and \<open>SummaryData\<close>, as serialised to JSON:
  a number that is \<open>NaN\<close> or infinite is serialised as \<open>null\<close>, here \<open>None\<close>.\<close>

record PredictionsResponse =
  predictions :: "PredictionData list"
  total :: nat
  page :: "int option"
  limit :: "int option"
  totalPages :: "int option"

record SummaryData =
  totalPredictions :: nat
  sportBreakdown :: "(string \<times> nat) list"
  confidenceBreakdown :: "(string \<times> nat) list"
  featuredPredictions :: "PredictionData list"

text \<open>What \<open>GET\<close> answers: one of the three JSON bodies, or the body
  \<open>{ error: 'Invalid endpoint' }\<close> with its status. \<open>PerformanceJson\<close> stands for the
  constant object \<open>mockPerformance\<close>, which the handler forwards as it is.\<close>

datatype response =
  PredictionsJson PredictionsResponse
| PerformanceJson
| SummaryJson SummaryData
| ErrorJson string nat

text \<open>The one exception the handler can raise: \<open>toISOString\<close> on an invalid date.\<close>

datatype error = RangeError

section \<open>The JavaScript run time\<close>

text \<open>
  Three functions of the run time are not fixed by the language: the order of
  \<open>String.prototype.localeCompare\<close>, the Unicode mapping of \<open>toLowerCase\<close>, and what
  \<open>Date.parse\<close> makes of a string that is not in the ECMAScript date-time format
  (this is also where the local time zone enters). They are parameters of the model.
\<close>

record runtime =
  localeCompare :: "string \<Rightarrow> string \<Rightarrow> int"
  toLowerCase :: "string \<Rightarrow> string"
  Date_parse_other :: "string \<Rightarrow> int option"

type_synonym searchParams = "string \<Rightarrow> string option"

subsection \<open>Strings and numbers\<close>

text \<open>\<open>if (v)\<close> and \<open>v || d\<close> on a value that is a string or \<open>null\<close>: \<open>null\<close> and the
  empty string are falsy.\<close>

definition whenTruthy :: "string option \<Rightarrow> (string \<Rightarrow> 'a) \<Rightarrow> 'a \<Rightarrow> 'a" where
  "whenTruthy v f d = (case v of None \<Rightarrow> d | Some s \<Rightarrow> if s = [] then d else f s)"

definition orElse :: "string option \<Rightarrow> string \<Rightarrow> string" where
  "orElse v d = whenTruthy v (\<lambda>s. s) d"

text \<open>\<open>hay.includes(needle)\<close>: the needle occurs as a contiguous part of \<open>hay\<close>.\<close>

fun startsWith :: "string \<Rightarrow> string \<Rightarrow> bool" where
  "startsWith hay [] = True"
| "startsWith [] (c # cs) = False"
| "startsWith (h # hs) (c # cs) = (h = c \<and> startsWith hs cs)"

fun String_includes :: "string \<Rightarrow> string \<Rightarrow> bool" where
  "String_includes [] needle = (needle = [])"
| "String_includes (h # hs) needle = (startsWith (h # hs) needle \<or> String_includes hs needle)"

text \<open>
  \<open>parseInt(s)\<close> with no radix: leading white space is skipped (here the white space
  of ASCII), then an optional sign, then \<open>0x\<close> or \<open>0X\<close> selects radix 16, then the
  longest run of digits is read; no digit gives \<open>NaN\<close>, here \<open>None\<close>. The integer is
  kept exactly: it is the number of the run time as long as it is below \<open>2^53\<close>.
\<close>

definition isWhiteSpace :: "char \<Rightarrow> bool" where
  "isWhiteSpace c = (c \<in> set [CHR 0x09, CHR 0x0A, CHR 0x0B, CHR 0x0C, CHR 0x0D, CHR 0x20])"

definition digitValue :: "char \<Rightarrow> nat option" where
  "digitValue c =
     (let n = of_char c :: nat in
      if 48 \<le> n \<and> n \<le> 57 then Some (n - 48)
      else if 97 \<le> n \<and> n \<le> 102 then Some (n - 87)
      else if 65 \<le> n \<and> n \<le> 70 then Some (n - 55)
      else None)"

definition isDigit :: "nat \<Rightarrow> char \<Rightarrow> bool" where
  "isDigit R c = (case digitValue c of None \<Rightarrow> False | Some d \<Rightarrow> d < R)"

definition digitsValue :: "nat \<Rightarrow> string \<Rightarrow> nat" where
  "digitsValue R Z = foldl (\<lambda>acc c. acc * R + (case digitValue c of None \<Rightarrow> 0 | Some d \<Rightarrow> d)) 0 Z"

definition parseInt :: "string \<Rightarrow> int option" where
  "parseInt s =
     (let S = dropWhile isWhiteSpace s;
          sign = (if take 1 S = ''-'' then - 1 else 1 :: int);
          S1 = (if take 1 S = ''-'' \<or> take 1 S = ''+'' then drop 1 S else S);
          hex = (take 2 S1 = ''0x'' \<or> take 2 S1 = ''0X'');
          R = (if hex then 16 else 10 :: nat);
          S2 = (if hex then drop 2 S1 else S1);
          Z = takeWhile (isDigit R) S2
      in if Z = [] then None else Some (sign * int (digitsValue R Z)))"

text \<open>\<open>Math.ceil(n / limit)\<close> for an array length \<open>n\<close>, as JSON shows it: \<open>NaN\<close> for a
  \<open>NaN\<close> limit, \<open>NaN\<close> or \<open>Infinity\<close> for the limit 0, both \<open>null\<close>.\<close>

definition Math_ceil_div :: "nat \<Rightarrow> int option \<Rightarrow> int option" where
  "Math_ceil_div n l =
     (case l of None \<Rightarrow> None
      | Some k \<Rightarrow> if k = 0 then None else Some \<lceil>real n / real_of_int k\<rceil>)"

subsection \<open>Dates\<close>

text \<open>
  A \<open>Date\<close> holds a time value, the milliseconds since 1970-01-01T00:00:00Z, or \<open>NaN\<close>
  (an invalid date, here \<open>None\<close>). \<open>DayFromYear\<close>, \<open>MakeDay\<close> and \<open>TimeClip\<close> are the
  abstract operations of ECMAScript.
\<close>

definition msPerDay :: int where
  "msPerDay = 86400000"

definition isLeapYear :: "int \<Rightarrow> bool" where
  "isLeapYear y = (y mod 4 = 0 \<and> (y mod 100 \<noteq> 0 \<or> y mod 400 = 0))"

definition DayFromYear :: "int \<Rightarrow> int" where
  "DayFromYear y =
     365 * (y - 1970) + (y - 1969) div 4 - (y - 1901) div 100 + (y - 1601) div 400"

definition DaysInMonth :: "int \<Rightarrow> int \<Rightarrow> int" where
  "DaysInMonth y m =
     (if m = 2 then (if isLeapYear y then 29 else 28)
      else if m \<in> set [4, 6, 9, 11] then 30 else 31)"

definition MakeDay :: "int \<Rightarrow> int \<Rightarrow> int \<Rightarrow> int" where
  "MakeDay y m d = DayFromYear y + sum_list (map (DaysInMonth y) [1..m - 1]) + d - 1"

definition TimeClip :: "int \<Rightarrow> int option" where
  "TimeClip t = (if \<bar>t\<bar> \<le> 8640000000000000 then Some t else None)"

text \<open>Reading a field of decimal digits of a date string.\<close>

definition decimalField :: "string \<Rightarrow> int option" where
  "decimalField s =
     (if s \<noteq> [] \<and> list_all (isDigit 10) s then Some (int (digitsValue 10 s)) else None)"

text \<open>
  The two forms of the ECMAScript date-time format that the repository uses, both in
  UTC by the language definition: the date-only form \<open>YYYY-MM-DD\<close> and the form
  \<open>YYYY-MM-DDTHH:mm:ssZ\<close>. A string that is not a valid instance of one of them is
  left to the run time.
\<close>

definition parseDateOnly :: "string \<Rightarrow> int option" where
  "parseDateOnly s =
     (if length s = 10 \<and> s ! 4 = CHR ''-'' \<and> s ! 7 = CHR ''-'' then
        (case (decimalField (take 4 s), decimalField (take 2 (drop 5 s)),
               decimalField (take 2 (drop 8 s))) of
           (Some y, Some m, Some d) \<Rightarrow>
             if 1 \<le> m \<and> m \<le> 12 \<and> 1 \<le> d \<and> d \<le> DaysInMonth y m
             then Some (MakeDay y m d * msPerDay) else None
         | _ \<Rightarrow> None)
      else None)"

definition parseTimeZ :: "string \<Rightarrow> int option" where
  "parseTimeZ s =
     (if length s = 10 \<and> s ! 0 = CHR ''T'' \<and> s ! 3 = CHR '':'' \<and> s ! 6 = CHR '':''
         \<and> s ! 9 = CHR ''Z'' then
        (case (decimalField (take 2 (drop 1 s)), decimalField (take 2 (drop 4 s)),
               decimalField (take 2 (drop 7 s))) of
           (Some h, Some mi, Some sec) \<Rightarrow>
             if h \<le> 23 \<and> mi \<le> 59 \<and> sec \<le> 59
             then Some ((h * 3600 + mi * 60 + sec) * 1000) else None
         | _ \<Rightarrow> None)
      else None)"

definition parseISO :: "string \<Rightarrow> int option" where
  "parseISO s =
     (if length s = 10 then parseDateOnly s
      else if length s = 20 then
        (case (parseDateOnly (take 10 s), parseTimeZ (drop 10 s)) of
           (Some day, Some tm) \<Rightarrow> Some (day + tm)
         | _ \<Rightarrow> None)
      else None)"

text \<open>\<open>new Date(s)\<close> for a string \<open>s\<close>, and \<open>getTime()\<close>, which is the time value.\<close>

definition newDate :: "runtime \<Rightarrow> string \<Rightarrow> int option" where
  "newDate rt s =
     (case parseISO s of
        Some t \<Rightarrow> TimeClip t
      | None \<Rightarrow> (case Date_parse_other rt s of None \<Rightarrow> None | Some t \<Rightarrow> TimeClip t))"

text \<open>
  The UTC calendar date of a time value: its day number \<open>floor(t / msPerDay)\<close>, turned
  into year, month and day of the proleptic Gregorian calendar.
\<close>

definition Day :: "int \<Rightarrow> int" where
  "Day t = t div msPerDay"

definition civilFromDays :: "int \<Rightarrow> int \<times> nat \<times> nat" where
  "civilFromDays z0 =
     (let z = z0 + 719468;
          era = z div 146097;
          doe = z - era * 146097;
          yoe = (doe - doe div 1460 + doe div 36524 - doe div 146096) div 365;
          doy = doe - (365 * yoe + yoe div 4 - yoe div 100);
          mp = (5 * doy + 2) div 153;
          d = doy - (153 * mp + 2) div 5 + 1;
          m = (if mp < 10 then mp + 3 else mp - 9);
          y = yoe + era * 400 + (if m \<le> 2 then 1 else 0)
      in (y, nat m, nat d))"

definition utcDate :: "int \<Rightarrow> int \<times> nat \<times> nat" where
  "utcDate t = civilFromDays (Day t)"

text \<open>Decimal digits, padded with zeros to at least the given width.\<close>

fun decimal :: "nat \<Rightarrow> nat \<Rightarrow> string" where
  "decimal 0 n = (if n = 0 then [] else decimal 0 (n div 10) @ [char_of (48 + n mod 10)])"
| "decimal (Suc w) n = decimal w (n div 10) @ [char_of (48 + n mod 10)]"

definition yearString :: "int \<Rightarrow> string" where
  "yearString y =
     (if 0 \<le> y \<and> y \<le> 9999 then decimal 4 (nat y)
      else (if y < 0 then ''-'' else ''+'') @ decimal 6 (nat \<bar>y\<bar>))"

text \<open>\<open>d.toISOString().split('T')[0]\<close>: the text before the \<open>T\<close> of the ISO rendering,
  which is the UTC date; \<open>toISOString\<close> raises on an invalid date.\<close>

definition isoDate :: "int option \<Rightarrow> error + string" where
  "isoDate d =
     (case d of
        None \<Rightarrow> Inl RangeError
      | Some t \<Rightarrow>
          (case utcDate t of
             (y, m, dd) \<Rightarrow> Inr (yearString y @ ''-'' @ decimal 2 m @ ''-'' @ decimal 2 dd)))"

subsection \<open>Arrays\<close>

text \<open>
  Arithmetic on numbers that may be \<open>NaN\<close>: the result is \<open>NaN\<close> as soon as an
  operand is.
\<close>

definition subN :: "int option \<Rightarrow> int option \<Rightarrow> int option" where
  "subN a b = (case (a, b) of (Some x, Some y) \<Rightarrow> Some (x - y) | _ \<Rightarrow> None)"

definition mulN :: "int option \<Rightarrow> int option \<Rightarrow> int option" where
  "mulN a b = (case (a, b) of (Some x, Some y) \<Rightarrow> Some (x * y) | _ \<Rightarrow> None)"

text \<open>
  \<open>Array.prototype.slice(start, end)\<close>: an index that is \<open>NaN\<close> counts as 0, a
  negative one counts from the end, and both are clamped to the length; nothing is
  returned when the end does not lie behind the start.
\<close>

definition relativeIndex :: "nat \<Rightarrow> int option \<Rightarrow> nat" where
  "relativeIndex len i =
     (case i of
        None \<Rightarrow> 0
      | Some k \<Rightarrow> if k < 0 then nat (max (int len + k) 0) else nat (min k (int len)))"

definition slice :: "int option \<Rightarrow> int option \<Rightarrow> 'a list \<Rightarrow> 'a list" where
  "slice start end xs =
     (let k = relativeIndex (length xs) start;
          final = relativeIndex (length xs) end
      in take (final - k) (drop k xs))"

text \<open>
  \<open>Array.prototype.sort(comparefn)\<close>. A comparison that yields \<open>NaN\<close> counts as 0.
  The sort is stable (ECMAScript 2019): for a consistent \<open>comparefn\<close> its result is the
  one that insertion from the right computes, an element staying in front of the later
  ones unless it compares greater. For an inconsistent \<open>comparefn\<close> the language leaves
  the order to the implementation.
\<close>

definition sortsAfter :: "('a \<Rightarrow> 'a \<Rightarrow> real option) \<Rightarrow> 'a \<Rightarrow> 'a \<Rightarrow> bool" where
  "sortsAfter comparefn x y = (case comparefn x y of None \<Rightarrow> False | Some v \<Rightarrow> 0 < v)"

fun insertSorted :: "('a \<Rightarrow> 'a \<Rightarrow> real option) \<Rightarrow> 'a \<Rightarrow> 'a list \<Rightarrow> 'a list" where
  "insertSorted comparefn x [] = [x]"
| "insertSorted comparefn x (y # ys) =
     (if sortsAfter comparefn x y then y # insertSorted comparefn x ys else x # y # ys)"

fun sort' :: "('a \<Rightarrow> 'a \<Rightarrow> real option) \<Rightarrow> 'a list \<Rightarrow> 'a list" where
  "sort' comparefn [] = []"
| "sort' comparefn (x # xs) = insertSorted comparefn x (sort' comparefn xs)"

text \<open>A callback of \<open>filter\<close> that may raise: the first exception ends the call.\<close>

fun filterE :: "('a \<Rightarrow> error + bool) \<Rightarrow> 'a list \<Rightarrow> error + 'a list" where
  "filterE P [] = Inr []"
| "filterE P (x # xs) =
     (case P x of
        Inl e \<Rightarrow> Inl e
      | Inr b \<Rightarrow>
          (case filterE P xs of
             Inl e \<Rightarrow> Inl e
           | Inr ys \<Rightarrow> Inr (if b then x # ys else ys)))"

text \<open>
  Arrays are objects: a variable holds a reference, and \<open>sort\<close> changes the array it
  is called on. The store lists the arrays by address; a new array gets the next
  address. The records in an array are never written to, so they are values.
\<close>

type_synonym addr = nat
type_synonym heap = "PredictionData list list"

definition Array_copy :: "addr \<Rightarrow> heap \<Rightarrow> addr \<times> heap" where
  \<comment> \<open>\<open>[...a]\<close>\<close>
  "Array_copy a h = (length h, h @ [h ! a])"

definition Array_filter :: "(PredictionData \<Rightarrow> bool) \<Rightarrow> addr \<Rightarrow> heap \<Rightarrow> addr \<times> heap" where
  "Array_filter P a h = (length h, h @ [filter P (h ! a)])"

definition Array_filterE ::
  "(PredictionData \<Rightarrow> error + bool) \<Rightarrow> addr \<Rightarrow> heap \<Rightarrow> (error + addr) \<times> heap" where
  "Array_filterE P a h =
     (case filterE P (h ! a) of
        Inl e \<Rightarrow> (Inl e, h)
      | Inr ys \<Rightarrow> (Inr (length h), h @ [ys]))"

definition Array_sort ::
  "(PredictionData \<Rightarrow> PredictionData \<Rightarrow> real option) \<Rightarrow> addr \<Rightarrow> heap \<Rightarrow> addr \<times> heap" where
  \<comment> \<open>in place; the call returns the array it was given\<close>
  "Array_sort comparefn a h = (a, h[a := sort' comparefn (h ! a)])"

definition Array_slice :: "int option \<Rightarrow> int option \<Rightarrow> addr \<Rightarrow> heap \<Rightarrow> addr \<times> heap" where
  "Array_slice start end a h = (length h, h @ [slice start end (h ! a)])"

section \<open>The route handler\<close>

text \<open>
  The module-level array \<open>mockPredictions\<close> is the first array of the store. The
  handler reads its request through \<open>searchParams.get\<close>, which is the argument
  \<open>searchParams\<close> here. An exception leaves the handler with the store as it is then.
\<close>

definition mockPredictions :: addr where
  "mockPredictions = 0"

subsection \<open>The case \<open>'predictions'\<close>\<close>

text \<open>The arrow functions given to \<open>filter\<close>, by the parameter they test.\<close>

definition sportIs :: "string \<Rightarrow> PredictionData \<Rightarrow> bool" where
  "sportIs sport' p = (sport p = sport')"

definition confidenceAtLeast :: "string \<Rightarrow> PredictionData \<Rightarrow> bool" where
  \<comment> \<open>\<open>p.confidence >= parseInt(minConfidence)\<close>, false against \<open>NaN\<close>\<close>
  "confidenceAtLeast minConfidence p =
     (case parseInt minConfidence of
        None \<Rightarrow> False
      | Some n \<Rightarrow> real_of_int n \<le> confidence p)"

definition onDate :: "runtime \<Rightarrow> string \<Rightarrow> PredictionData \<Rightarrow> error + bool" where
  "onDate rt targetDate p =
     (case isoDate (newDate rt (gameTime p)) of
        Inl e \<Rightarrow> Inl e
      | Inr predictionDate \<Rightarrow> Inr (predictionDate = targetDate))"

definition statIs :: "string \<Rightarrow> PredictionData \<Rightarrow> bool" where
  "statIs stat' p = (stat p = stat')"

definition teamIs :: "string \<Rightarrow> PredictionData \<Rightarrow> bool" where
  "teamIs team' p = (team p = team' \<or> opponent p = team')"

definition playerHas :: "runtime \<Rightarrow> string \<Rightarrow> PredictionData \<Rightarrow> bool" where
  "playerHas rt player' p =
     String_includes (toLowerCase rt (player p)) (toLowerCase rt player')"

definition sportFilter :: "searchParams \<Rightarrow> addr \<Rightarrow> heap \<Rightarrow> addr \<times> heap" where
  "sportFilter searchParams filteredPredictions h =
     whenTruthy (searchParams ''sport'')
       (\<lambda>sport'. Array_filter (sportIs sport') filteredPredictions h)
       (filteredPredictions, h)"

definition confidenceFilter :: "searchParams \<Rightarrow> addr \<Rightarrow> heap \<Rightarrow> addr \<times> heap" where
  "confidenceFilter searchParams filteredPredictions h =
     whenTruthy (searchParams ''minConfidence'')
       (\<lambda>minConfidence. Array_filter (confidenceAtLeast minConfidence) filteredPredictions h)
       (filteredPredictions, h)"

definition dateFilter ::
  "runtime \<Rightarrow> searchParams \<Rightarrow> addr \<Rightarrow> heap \<Rightarrow> (error + addr) \<times> heap" where
  "dateFilter rt searchParams filteredPredictions h =
     whenTruthy (searchParams ''date'')
       (\<lambda>date.
          case isoDate (newDate rt date) of
            Inl e \<Rightarrow> (Inl e, h)
          | Inr targetDate \<Rightarrow> Array_filterE (onDate rt targetDate) filteredPredictions h)
       (Inr filteredPredictions, h)"

definition statFilter :: "searchParams \<Rightarrow> addr \<Rightarrow> heap \<Rightarrow> addr \<times> heap" where
  "statFilter searchParams filteredPredictions h =
     whenTruthy (searchParams ''stat'')
       (\<lambda>stat'. Array_filter (statIs stat') filteredPredictions h)
       (filteredPredictions, h)"

definition teamFilter :: "searchParams \<Rightarrow> addr \<Rightarrow> heap \<Rightarrow> addr \<times> heap" where
  "teamFilter searchParams filteredPredictions h =
     whenTruthy (searchParams ''team'')
       (\<lambda>team'. Array_filter (teamIs team') filteredPredictions h)
       (filteredPredictions, h)"

definition playerFilter :: "runtime \<Rightarrow> searchParams \<Rightarrow> addr \<Rightarrow> heap \<Rightarrow> addr \<times> heap" where
  "playerFilter rt searchParams filteredPredictions h =
     whenTruthy (searchParams ''player'')
       (\<lambda>player'. Array_filter (playerHas rt player') filteredPredictions h)
       (filteredPredictions, h)"

text \<open>The filters in the order of the source, from the copy of \<open>mockPredictions\<close> on.\<close>

definition applyFilters ::
  "runtime \<Rightarrow> searchParams \<Rightarrow> addr \<Rightarrow> heap \<Rightarrow> (error + addr) \<times> heap" where
  "applyFilters rt searchParams filteredPredictions h =
     (case sportFilter searchParams filteredPredictions h of
        (fp1, h1) \<Rightarrow>
          (case confidenceFilter searchParams fp1 h1 of
             (fp2, h2) \<Rightarrow>
               (case dateFilter rt searchParams fp2 h2 of
                  (Inl e, h3) \<Rightarrow> (Inl e, h3)
                | (Inr fp3, h3) \<Rightarrow>
                    (case statFilter searchParams fp3 h3 of
                       (fp4, h4) \<Rightarrow>
                         (case teamFilter searchParams fp4 h4 of
                            (fp5, h5) \<Rightarrow>
                              (case playerFilter rt searchParams fp5 h5 of
                                 (fp6, h6) \<Rightarrow> (Inr fp6, h6)))))))"

text \<open>The comparison function of the sort, with its \<open>switch\<close> on \<open>sortBy\<close>.\<close>

definition compareFn ::
  "runtime \<Rightarrow> string \<Rightarrow> string \<Rightarrow> PredictionData \<Rightarrow> PredictionData \<Rightarrow> real option" where
  "compareFn rt sortBy sortOrder a b =
     (let comparison =
        (if sortBy = ''confidence'' then Some (confidence a - confidence b)
         else if sortBy = ''gameTime'' then
           (case (newDate rt (gameTime a), newDate rt (gameTime b)) of
              (Some ta, Some tb) \<Rightarrow> Some (real_of_int (ta - tb))
            | _ \<Rightarrow> None)
         else if sortBy = ''player'' then
           Some (real_of_int (localeCompare rt (player a) (player b)))
         else if sortBy = ''line'' then Some (line a - line b)
         else if sortBy = ''predictedValue'' then Some (predictedValue a - predictedValue b)
         else Some (confidence a - confidence b))
      in if sortOrder = ''asc'' then comparison else map_option uminus comparison)"

definition applySorting :: "runtime \<Rightarrow> searchParams \<Rightarrow> addr \<Rightarrow> heap \<Rightarrow> addr \<times> heap" where
  "applySorting rt searchParams filteredPredictions h =
     (let sortBy = orElse (searchParams ''sortBy'') ''confidence'';
          sortOrder = orElse (searchParams ''sortOrder'') ''desc''
      in Array_sort (compareFn rt sortBy sortOrder) filteredPredictions h)"

definition applyPagination :: "searchParams \<Rightarrow> addr \<Rightarrow> heap \<Rightarrow> PredictionsResponse \<times> heap" where
  "applyPagination searchParams filteredPredictions h =
     (let page' = parseInt (orElse (searchParams ''page'') ''1'');
          limit' = parseInt (orElse (searchParams ''limit'') ''10'');
          startIndex = mulN (subN page' (Some 1)) limit';
          endIndex = mulN page' limit'
      in case Array_slice startIndex endIndex filteredPredictions h of
           (paginatedPredictions, h') \<Rightarrow>
             (\<lparr>predictions = h' ! paginatedPredictions,
               total = length (h' ! filteredPredictions),
               page = page',
               limit = limit',
               totalPages = Math_ceil_div (length (h' ! filteredPredictions)) limit'\<rparr>, h'))"

definition predictionsCase ::
  "runtime \<Rightarrow> searchParams \<Rightarrow> heap \<Rightarrow> (error + response) \<times> heap" where
  "predictionsCase rt searchParams h =
     (case Array_copy mockPredictions h of
        (fp0, h0) \<Rightarrow>
          (case applyFilters rt searchParams fp0 h0 of
             (Inl e, h1) \<Rightarrow> (Inl e, h1)
           | (Inr fp1, h1) \<Rightarrow>
               (case applySorting rt searchParams fp1 h1 of
                  (fp2, h2) \<Rightarrow>
                    (case applyPagination searchParams fp2 h2 of
                       (r, h3) \<Rightarrow> (Inr (PredictionsJson r), h3)))))"

subsection \<open>The case \<open>'summary'\<close>\<close>

text \<open>\<open>mockPredictions.filter(p => key(p) === k).length\<close> for each key \<open>k\<close> of an
  object literal, in the order written.\<close>

fun breakdown ::
  "(PredictionData \<Rightarrow> string) \<Rightarrow> string list \<Rightarrow> heap \<Rightarrow> (string \<times> nat) list \<times> heap" where
  "breakdown key [] h = ([], h)"
| "breakdown key (k # ks) h =
     (case Array_filter (\<lambda>p. key p = k) mockPredictions h of
        (a, h1) \<Rightarrow>
          (case breakdown key ks h1 of
             (rest, h2) \<Rightarrow> ((k, length (h1 ! a)) # rest, h2)))"

definition featured :: "heap \<Rightarrow> PredictionData list \<times> heap" where
  "featured h =
     (case Array_filter (\<lambda>p. 80 \<le> confidence p) mockPredictions h of
        (a1, h1) \<Rightarrow>
          (case Array_sort (\<lambda>a b. Some (confidence b - confidence a)) a1 h1 of
             (a2, h2) \<Rightarrow>
               (case Array_slice (Some 0) (Some 3) a2 h2 of
                  (a3, h3) \<Rightarrow> (h3 ! a3, h3))))"

definition summaryCase :: "heap \<Rightarrow> response \<times> heap" where
  "summaryCase h =
     (case breakdown sport [''NBA'', ''NFL'', ''MLB'', ''NHL'', ''Soccer''] h of
        (sports, h1) \<Rightarrow>
          (case breakdown confidenceCategory
                  [''Very High'', ''High'', ''Moderate'', ''Low'', ''Very Low''] h1 of
             (categories, h2) \<Rightarrow>
               (case featured h2 of
                  (picks, h3) \<Rightarrow>
                    (SummaryJson
                       \<lparr>totalPredictions = length (h ! mockPredictions),
                        sportBreakdown = sports,
                        confidenceBreakdown = categories,
                        featuredPredictions = picks\<rparr>, h3))))"

subsection \<open>The handler\<close>

definition GET :: "runtime \<Rightarrow> searchParams \<Rightarrow> heap \<Rightarrow> (error + response) \<times> heap" where
  "GET rt searchParams h =
     (let endpoint = searchParams ''endpoint'' in
      if endpoint = Some ''predictions'' then predictionsCase rt searchParams h
      else if endpoint = Some ''performance'' then (Inr PerformanceJson, h)
      else if endpoint = Some ''summary'' then
        (case summaryCase h of (r, h') \<Rightarrow> (Inr r, h'))
      else (Inr (ErrorJson ''Invalid endpoint'' 400), h))"

section \<open>The data of the module\<close>

text \<open>The fourteen records of \<open>mockPredictions\<close>, and the store of a fresh module.\<close>

definition prediction1 :: PredictionData where
  "prediction1 =
    \<lparr>id' = ''1'', player = ''LeBron James'', team = ''LAL'', opponent = ''BOS'',
     gameTime = ''2025-03-21T20:00:00Z'', sport = ''NBA'', stat = ''Points'',
     line = 25.5, predictedValue = 27.5, overProbability = 0.74, confidence = 80,
     confidenceCategory = ''High'',
     keyFactors = [''High usage rate'',
       ''Weak opponent defense'',
       ''Recent scoring streak'']\<rparr>"

definition prediction2 :: PredictionData where
  "prediction2 =
    \<lparr>id' = ''2'', player = ''Stephen Curry'', team = ''GSW'', opponent = ''PHX'',
     gameTime = ''2025-03-21T22:30:00Z'', sport = ''NBA'', stat = ''3-Pointers'',
     line = 4.5, predictedValue = 5.8, overProbability = 0.82, confidence = 92,
     confidenceCategory = ''Very High'',
     keyFactors = [''Phoenix allows most 3PA'',
       ''Recent hot shooting streak'',
       ''Home court advantage'']\<rparr>"

definition prediction3 :: PredictionData where
  "prediction3 =
    \<lparr>id' = ''3'', player = ''Nikola Joki'' @ [CHR 0xC4, CHR 0x87], team = ''DEN'', opponent = ''MIA'',
     gameTime = ''2025-03-22T19:00:00Z'', sport = ''NBA'', stat = ''Assists'',
     line = 8.5, predictedValue = 10.2, overProbability = 0.78, confidence = 85,
     confidenceCategory = ''High'',
     keyFactors = [''Murray returning from injury'',
       ''Miami'' @ [CHR 0x27] @ ''s defensive scheme'',
       ''Averaging 11.2 assists last 5 games'']\<rparr>"

definition prediction4 :: PredictionData where
  "prediction4 =
    \<lparr>id' = ''4'', player = ''Joel Embiid'', team = ''PHI'', opponent = ''NYK'',
     gameTime = ''2025-03-22T19:30:00Z'', sport = ''NBA'', stat = ''Rebounds'',
     line = 11.5, predictedValue = 10.3, overProbability = 0.35, confidence = 75,
     confidenceCategory = ''High'',
     keyFactors = [''Strong NYK rebounding'',
       ''Limited minutes expected'',
       ''Under in last 3 matchups'']\<rparr>"

definition prediction5 :: PredictionData where
  "prediction5 =
    \<lparr>id' = ''5'', player = ''Luka Don'' @ [CHR 0xC4, CHR 0x8D] @ ''i'' @ [CHR 0xC4, CHR 0x87], team = ''DAL'', opponent = ''LAC'',
     gameTime = ''2025-03-22T20:30:00Z'', sport = ''NBA'', stat = ''Points + Rebounds + Assists'',
     line = 47.5, predictedValue = 52.3, overProbability = 0.68, confidence = 70,
     confidenceCategory = ''Moderate'',
     keyFactors = [''High usage without Irving'',
       ''Clippers defensive focus'',
       ''Averaging 51.2 PRA last 10 games'']\<rparr>"

definition prediction6 :: PredictionData where
  "prediction6 =
    \<lparr>id' = ''6'', player = ''Jayson Tatum'', team = ''BOS'', opponent = ''LAL'',
     gameTime = ''2025-03-21T20:00:00Z'', sport = ''NBA'', stat = ''Points'',
     line = 28.5, predictedValue = 26.8, overProbability = 0.42, confidence = 65,
     confidenceCategory = ''Moderate'',
     keyFactors = [''Lakers improved defense'',
       ''Brown taking more shots'',
       ''Under in 4 of last 6 games'']\<rparr>"

definition prediction7 :: PredictionData where
  "prediction7 =
    \<lparr>id' = ''7'', player = ''Patrick Mahomes'', team = ''KC'', opponent = ''BAL'',
     gameTime = ''2025-03-23T18:00:00Z'', sport = ''NFL'', stat = ''Passing Yards'',
     line = 285.5, predictedValue = 310.2, overProbability = 0.71, confidence = 75,
     confidenceCategory = ''High'',
     keyFactors = [''Baltimore secondary injuries'',
       ''High-scoring game expected'',
       ''Strong performance in last matchup'']\<rparr>"

definition prediction8 :: PredictionData where
  "prediction8 =
    \<lparr>id' = ''8'', player = ''Lamar Jackson'', team = ''BAL'', opponent = ''KC'',
     gameTime = ''2025-03-23T18:00:00Z'', sport = ''NFL'', stat = ''Rushing Yards'',
     line = 65.5, predictedValue = 78.3, overProbability = 0.68, confidence = 72,
     confidenceCategory = ''High'',
     keyFactors = [''KC struggles against mobile QBs'',
       ''Designed run plays increasing'',
       ''Weather conditions favor running'']\<rparr>"

definition prediction9 :: PredictionData where
  "prediction9 =
    \<lparr>id' = ''9'', player = ''Shohei Ohtani'', team = ''LAD'', opponent = ''SF'',
     gameTime = ''2025-03-22T21:10:00Z'', sport = ''MLB'', stat = ''Strikeouts'',
     line = 7.5, predictedValue = 8.7, overProbability = 0.64, confidence = 68,
     confidenceCategory = ''Moderate'',
     keyFactors = [''Giants high K-rate vs. RHP'',
       ''Ohtani'' @ [CHR 0x27] @ ''s splitter effectiveness'',
       ''Favorable umpire for pitchers'']\<rparr>"

definition prediction10 :: PredictionData where
  "prediction10 =
    \<lparr>id' = ''10'', player = ''Aaron Judge'', team = ''NYY'', opponent = ''BOS'',
     gameTime = ''2025-03-22T18:05:00Z'', sport = ''MLB'', stat = ''Total Bases'',
     line = 1.5, predictedValue = 2.3, overProbability = 0.76, confidence = 82,
     confidenceCategory = ''High'',
     keyFactors = [''Strong vs. Boston pitching'',
       ''Wind blowing out to right field'',
       ''Hot streak in last 7 games'']\<rparr>"

definition prediction11 :: PredictionData where
  "prediction11 =
    \<lparr>id' = ''11'', player = ''Connor McDavid'', team = ''EDM'', opponent = ''VGK'',
     gameTime = ''2025-03-22T22:00:00Z'', sport = ''NHL'', stat = ''Points'',
     line = 1.5, predictedValue = 1.8, overProbability = 0.62, confidence = 67,
     confidenceCategory = ''Moderate'',
     keyFactors = [''Vegas goaltender struggles'',
       ''Power play opportunities'',
       ''Multi-point games in 3 of last 5'']\<rparr>"

definition prediction12 :: PredictionData where
  "prediction12 =
    \<lparr>id' = ''12'', player = ''Auston Matthews'', team = ''TOR'', opponent = ''MTL'',
     gameTime = ''2025-03-22T19:00:00Z'', sport = ''NHL'', stat = ''Shots on Goal'',
     line = 4.5, predictedValue = 5.7, overProbability = 0.79, confidence = 85,
     confidenceCategory = ''High'',
     keyFactors = [''Montreal allows most shots in league'',
       ''Matthews averaging 5.8 SOG last 10 games'',
       ''Rivalry game intensity'']\<rparr>"

definition prediction13 :: PredictionData where
  "prediction13 =
    \<lparr>id' = ''13'', player = ''Erling Haaland'', team = ''MCI'', opponent = ''ARS'',
     gameTime = ''2025-03-23T16:30:00Z'', sport = ''Soccer'', stat = ''Shots on Target'',
     line = 2.5, predictedValue = 3.2, overProbability = 0.67, confidence = 73,
     confidenceCategory = ''High'',
     keyFactors = [''Arsenal missing key defender'',
       ''City'' @ [CHR 0x27] @ ''s attacking form'',
       ''Haaland'' @ [CHR 0x27] @ ''s home record'']\<rparr>"

definition prediction14 :: PredictionData where
  "prediction14 =
    \<lparr>id' = ''14'', player = ''Mohamed Salah'', team = ''LIV'', opponent = ''CHE'',
     gameTime = ''2025-03-23T14:00:00Z'', sport = ''Soccer'', stat = ''Goal Contributions'',
     line = 0.5, predictedValue = 0.9, overProbability = 0.81, confidence = 78,
     confidenceCategory = ''High'',
     keyFactors = [''Chelsea defensive vulnerabilities'',
       ''Salah'' @ [CHR 0x27] @ ''s record vs. Chelsea'',
       ''Liverpool'' @ [CHR 0x27] @ ''s attacking tactics'']\<rparr>"

definition mockData :: "PredictionData list" where
  "mockData =
     [prediction1, prediction2, prediction3, prediction4, prediction5,
      prediction6, prediction7, prediction8, prediction9, prediction10,
      prediction11, prediction12, prediction13, prediction14]"

definition initialHeap :: heap where
  "initialHeap = [mockData]"

text \<open>
  A run time for the examples: strings compare by their character codes, only the
  letters A to Z have a lower case, and only the two date forms above are dates.
\<close>

fun compareStrings :: "string \<Rightarrow> string \<Rightarrow> int" where
  "compareStrings [] [] = 0"
| "compareStrings [] (y # ys) = - 1"
| "compareStrings (x # xs) [] = 1"
| "compareStrings (x # xs) (y # ys) =
     (if (of_char x :: nat) < of_char y then - 1
      else if (of_char y :: nat) < of_char x then 1
      else compareStrings xs ys)"

definition asciiLower :: "char \<Rightarrow> char" where
  "asciiLower c =
     (if 65 \<le> (of_char c :: nat) \<and> (of_char c :: nat) \<le> 90
      then char_of (of_char c + 32 :: nat) else c)"

definition plainRuntime :: runtime where
  "plainRuntime =
     \<lparr>localeCompare = compareStrings,
      toLowerCase = map asciiLower,
      Date_parse_other = (\<lambda>s. None)\<rparr>"

section \<open>Views of the handler\<close>

text \<open>
  What the blocks of the case \<open>'predictions'\<close> compute, as functions of the contents
  of the array they are given: lemmas \<open>applyFilters_step\<close>, \<open>applySorting_step\<close> and
  \<open>applyPagination_step\<close> below relate them to the handler. A filter whose parameter is
  absent keeps every record.
\<close>

definition dateRecords ::
  "runtime \<Rightarrow> searchParams \<Rightarrow> PredictionData list \<Rightarrow> error + PredictionData list" where
  "dateRecords rt searchParams xs =
     whenTruthy (searchParams ''date'')
       (\<lambda>date.
          case isoDate (newDate rt date) of
            Inl e \<Rightarrow> Inl e
          | Inr targetDate \<Rightarrow> filterE (onDate rt targetDate) xs)
       (Inr xs)"

definition filterRecords ::
  "runtime \<Rightarrow> searchParams \<Rightarrow> PredictionData list \<Rightarrow> error + PredictionData list" where
  "filterRecords rt searchParams xs =
     (case dateRecords rt searchParams
             (filter (\<lambda>p. whenTruthy (searchParams ''minConfidence'') (\<lambda>s. confidenceAtLeast s p) True)
                (filter (\<lambda>p. whenTruthy (searchParams ''sport'') (\<lambda>s. sportIs s p) True) xs)) of
        Inl e \<Rightarrow> Inl e
      | Inr ys \<Rightarrow>
          Inr (filter (\<lambda>p. whenTruthy (searchParams ''player'') (\<lambda>s. playerHas rt s p) True)
                 (filter (\<lambda>p. whenTruthy (searchParams ''team'') (\<lambda>s. teamIs s p) True)
                    (filter (\<lambda>p. whenTruthy (searchParams ''stat'') (\<lambda>s. statIs s p) True) ys))))"

definition sortRecords :: "runtime \<Rightarrow> searchParams \<Rightarrow> PredictionData list \<Rightarrow> PredictionData list" where
  "sortRecords rt searchParams ys =
     sort' (compareFn rt (orElse (searchParams ''sortBy'') ''confidence'')
                         (orElse (searchParams ''sortOrder'') ''desc'')) ys"

definition pageRecords :: "searchParams \<Rightarrow> PredictionData list \<Rightarrow> PredictionsResponse" where
  "pageRecords searchParams zs =
     (let page' = parseInt (orElse (searchParams ''page'') ''1'');
          limit' = parseInt (orElse (searchParams ''limit'') ''10'')
      in \<lparr>predictions = slice (mulN (subN page' (Some 1)) limit') (mulN page' limit') zs,
          total = length zs,
          page = page',
          limit = limit',
          totalPages = Math_ceil_div (length zs) limit'\<rparr>)"

text \<open>The contents of \<open>filteredPredictions\<close> when the handler reaches the pagination:
  the copy of \<open>mockPredictions\<close>, filtered and sorted.\<close>

definition filteredSorted :: "runtime \<Rightarrow> searchParams \<Rightarrow> heap \<Rightarrow> error + PredictionData list" where
  "filteredSorted rt searchParams h =
     (case Array_copy mockPredictions h of
        (fp0, h0) \<Rightarrow>
          (case applyFilters rt searchParams fp0 h0 of
             (Inl e, h1) \<Rightarrow> Inl e
           | (Inr fp1, h1) \<Rightarrow>
               (case applySorting rt searchParams fp1 h1 of
                  (fp2, h2) \<Rightarrow> Inr (h2 ! fp2))))"


text \<open>An array \<open>a\<close> of the store \<open>h\<close> that was allocated after the store was \<open>h0\<close>,
  the arrays of \<open>h0\<close> being as they were.\<close>

definition owned :: "heap \<Rightarrow> addr \<Rightarrow> heap \<Rightarrow> bool" where
  "owned h0 a h = (prefix h0 h \<and> length h0 \<le> a \<and> a < length h)"

section \<open>The client\<close>


section \<open>The claims in their words\<close>

text \<open>Two date strings denote instants of the same UTC calendar day.\<close>

definition sameUtcDate :: "runtime \<Rightarrow> string \<Rightarrow> string \<Rightarrow> bool" where
  "sameUtcDate rt a b =
     (case (newDate rt a, newDate rt b) of
        (Some t, Some u) \<Rightarrow> utcDate t = utcDate u
      | _ \<Rightarrow> False)"


text \<open>The date of the filter, when there is one, and the game times of the records
  are dates: \<open>toISOString\<close> raises a \<open>RangeError\<close> on any that is not.\<close>

definition validDates :: "runtime \<Rightarrow> searchParams \<Rightarrow> PredictionData list \<Rightarrow> bool" where
  "validDates rt F xs =
     whenTruthy (F ''date'')
       (\<lambda>d. newDate rt d \<noteq> None \<and> list_all (\<lambda>p. newDate rt (gameTime p) \<noteq> None) xs) True"


text \<open>The records with a confidence of at least 80, sorted by descending confidence
  with the stable sort of the library, cut to the first three.\<close>

definition featuredSpec :: "PredictionData list \<Rightarrow> PredictionData list" where
  "featuredSpec snapshot =
     take 3 (sort_key (\<lambda>p. - confidence p) (filter (\<lambda>p. 80 \<le> confidence p) snapshot))"

section \<open>Queries of the examples\<close>

text \<open>The \<open>searchParams\<close> of a URL with the given pairs; \<open>get\<close> answers the first
  value of a name.\<close>

definition query :: "(string \<times> string) list \<Rightarrow> searchParams" where
  "query ps = map_of ps"




definition nbaPage99Query :: searchParams where
  "nbaPage99Query =
     query [(''endpoint'', ''predictions''), (''sport'', ''NBA''), (''page'', ''99''), (''limit'', ''6'')]"

definition unknownSortAscQuery :: searchParams where
  "unknownSortAscQuery =
     query [(''endpoint'', ''predictions''), (''sortBy'', ''popularity''), (''sortOrder'', ''asc''),
            (''limit'', ''3'')]"

definition defaultSortQuery :: searchParams where
  "defaultSortQuery =
     query [(''endpoint'', ''predictions''), (''sortBy'', ''confidence''), (''sortOrder'', ''desc''),
            (''limit'', ''3'')]"

definition unknownSortQuery :: searchParams where
  "unknownSortQuery =
     query [(''endpoint'', ''predictions''), (''sortBy'', ''popularity''), (''limit'', ''3'')]"



definition march21Query :: searchParams where
  "march21Query = query [(''endpoint'', ''predictions''), (''date'', ''2025-03-21'')]"

definition march22Query :: searchParams where
  "march22Query = query [(''endpoint'', ''predictions''), (''date'', ''2025-03-22'')]"

text \<open>A game late in the evening of March 21st, UTC.\<close>

definition lateGame :: PredictionData where
  "lateGame = prediction2\<lparr>gameTime := ''2025-03-21T23:30:00Z''\<rparr>"

definition summaryQuery :: searchParams where
  "summaryQuery = query [(''endpoint'', ''summary''), (''sport'', ''NFL'')]"

section \<open>The store and the values of the handler\<close>

lemma owned_Nil: "owned [] a h = (a < length h)"
  by (simp add: owned_def)

lemma prefix_nth: "prefix h0 h \<Longrightarrow> i < length h0 \<Longrightarrow> h ! i = h0 ! i"
  by (auto simp: prefix_def nth_append)

lemma owned_alloc: "prefix h0 h \<Longrightarrow> owned h0 (length h) (h @ [xs])"
  by (auto simp: owned_def prefix_def)

lemma owned_update: "owned h0 a h \<Longrightarrow> owned h0 a (h[a := v])"
  by (auto simp: owned_def prefix_def list_update_append)

lemma owned_prefix: "owned h0 a h \<Longrightarrow> prefix h0 h"
  by (simp add: owned_def)

lemma filter_step:
  assumes "owned h0 a h"
    and "whenTruthy v (\<lambda>s. Array_filter (P s) a h) (a, h) = (a', h')"
  shows "owned h0 a' h' \<and> h' ! a' = filter (\<lambda>p. whenTruthy v (\<lambda>s. P s p) True) (h ! a)"
proof (cases "v = None \<or> v = Some []")
  case True
  with assms show ?thesis by (auto simp: whenTruthy_def)
next
  case False
  then obtain s where v: "v = Some s" "s \<noteq> []" by auto
  with assms(2) have eq: "a' = length h" "h' = h @ [filter (P s) (h ! a)]"
    by (auto simp: whenTruthy_def Array_filter_def)
  have "owned h0 a' h'"
    unfolding eq by (rule owned_alloc) (use assms(1) in \<open>simp add: owned_def\<close>)
  moreover have "h' ! a' = filter (P s) (h ! a)"
    by (simp add: eq)
  ultimately show ?thesis using v by (simp add: whenTruthy_def)
qed

lemma filterE_step:
  assumes "owned h0 a h" and "Array_filterE P a h = (r, h')"
  shows "prefix h0 h' \<and>
         (case r of Inl e \<Rightarrow> filterE P (h ! a) = Inl e
          | Inr a' \<Rightarrow> owned h0 a' h' \<and> filterE P (h ! a) = Inr (h' ! a'))"
proof (cases "filterE P (h ! a)")
  case (Inl e)
  with assms show ?thesis by (auto simp: Array_filterE_def owned_def)
next
  case (Inr ys)
  with assms(2) have eq: "r = Inr (length h)" "h' = h @ [ys]"
    by (auto simp: Array_filterE_def)
  have "owned h0 (length h) (h @ [ys])"
    by (rule owned_alloc) (use assms(1) in \<open>simp add: owned_def\<close>)
  then show ?thesis using Inr by (simp add: eq owned_def)
qed

lemma dateFilter_step:
  assumes "owned h0 a h" and "dateFilter rt sp a h = (r, h')"
  shows "prefix h0 h' \<and>
         (case r of Inl e \<Rightarrow> dateRecords rt sp (h ! a) = Inl e
          | Inr a' \<Rightarrow> owned h0 a' h' \<and> dateRecords rt sp (h ! a) = Inr (h' ! a'))"
proof (cases "sp ''date'' = None \<or> sp ''date'' = Some []")
  case True
  with assms show ?thesis
    by (auto simp: dateFilter_def dateRecords_def whenTruthy_def owned_def)
next
  case False
  then obtain d where d: "sp ''date'' = Some d" "d \<noteq> []" by auto
  show ?thesis
  proof (cases "isoDate (newDate rt d)")
    case (Inl e)
    with assms d show ?thesis
      by (auto simp: dateFilter_def dateRecords_def whenTruthy_def owned_def)
  next
    case (Inr td)
    with assms(2) d have "Array_filterE (onDate rt td) a h = (r, h')"
      by (simp add: dateFilter_def whenTruthy_def)
    from filterE_step [OF assms(1) this] show ?thesis
      using d Inr by (auto simp: dateRecords_def whenTruthy_def split: sum.splits)
  qed
qed

lemma applyFilters_step:
  assumes "owned h0 a h" and "applyFilters rt sp a h = (r, h')"
  shows "prefix h0 h' \<and>
         (case r of Inl e \<Rightarrow> filterRecords rt sp (h ! a) = Inl e
          | Inr a' \<Rightarrow> owned h0 a' h' \<and> filterRecords rt sp (h ! a) = Inr (h' ! a'))"
proof -
  obtain a1 h1 where s1: "sportFilter sp a h = (a1, h1)" by (cases "sportFilter sp a h")
  obtain a2 h2 where s2: "confidenceFilter sp a1 h1 = (a2, h2)" by (cases "confidenceFilter sp a1 h1")
  obtain r3 h3 where s3: "dateFilter rt sp a2 h2 = (r3, h3)" by (cases "dateFilter rt sp a2 h2")
  from filter_step [OF assms(1) s1 [unfolded sportFilter_def]]
  have o1: "owned h0 a1 h1"
    and c1: "h1 ! a1 = filter (\<lambda>p. whenTruthy (sp ''sport'') (\<lambda>s. sportIs s p) True) (h ! a)"
    by simp_all
  from filter_step [OF o1 s2 [unfolded confidenceFilter_def]]
  have o2: "owned h0 a2 h2"
    and c2: "h2 ! a2 = filter (\<lambda>p. whenTruthy (sp ''minConfidence'') (\<lambda>s. confidenceAtLeast s p) True) (h1 ! a1)"
    by simp_all
  note d3 = dateFilter_step [OF o2 s3]
  show ?thesis
  proof (cases r3)
    case (Inl e)
    with assms(2) s1 s2 s3 have "r = Inl e" "h' = h3"
      by (simp_all add: applyFilters_def)
    with d3 Inl show ?thesis
      by (simp add: filterRecords_def c1 c2)
  next
    case (Inr a3)
    with d3 have o3: "owned h0 a3 h3" and c3: "dateRecords rt sp (h2 ! a2) = Inr (h3 ! a3)"
      by simp_all
    obtain a4 h4 where s4: "statFilter sp a3 h3 = (a4, h4)" by (cases "statFilter sp a3 h3")
    obtain a5 h5 where s5: "teamFilter sp a4 h4 = (a5, h5)" by (cases "teamFilter sp a4 h4")
    obtain a6 h6 where s6: "playerFilter rt sp a5 h5 = (a6, h6)" by (cases "playerFilter rt sp a5 h5")
    from filter_step [OF o3 s4 [unfolded statFilter_def]]
    have o4: "owned h0 a4 h4"
      and c4: "h4 ! a4 = filter (\<lambda>p. whenTruthy (sp ''stat'') (\<lambda>s. statIs s p) True) (h3 ! a3)"
      by simp_all
    from filter_step [OF o4 s5 [unfolded teamFilter_def]]
    have o5: "owned h0 a5 h5"
      and c5: "h5 ! a5 = filter (\<lambda>p. whenTruthy (sp ''team'') (\<lambda>s. teamIs s p) True) (h4 ! a4)"
      by simp_all
    from filter_step [OF o5 s6 [unfolded playerFilter_def]]
    have o6: "owned h0 a6 h6"
      and c6: "h6 ! a6 = filter (\<lambda>p. whenTruthy (sp ''player'') (\<lambda>s. playerHas rt s p) True) (h5 ! a5)"
      by simp_all
    from assms(2) s1 s2 s3 s4 s5 s6 Inr have "r = Inr a6" "h' = h6"
      by (simp_all add: applyFilters_def)
    then show ?thesis
      using o6 c1 c2 c3 c4 c5 c6 by (simp add: filterRecords_def owned_def)
  qed
qed

lemma applySorting_step:
  assumes "owned h0 a h" and "applySorting rt sp a h = (a', h')"
  shows "owned h0 a' h' \<and> h' ! a' = sortRecords rt sp (h ! a)"
proof -
  from assms(2) have eq: "a' = a"
    "h' = h[a := sortRecords rt sp (h ! a)]"
    by (auto simp: applySorting_def Array_sort_def sortRecords_def Let_def)
  from assms(1) have "a < length h" by (simp add: owned_def)
  then show ?thesis
    using owned_update [OF assms(1)] by (simp add: eq)
qed

lemma applyPagination_step:
  assumes "owned h0 a h" and "applyPagination sp a h = (r, h')"
  shows "prefix h0 h' \<and> r = pageRecords sp (h ! a)"
proof -
  from assms(1) have a: "a < length h" and p: "prefix h0 h" by (simp_all add: owned_def)
  from assms(2) a have "r = pageRecords sp (h ! a)"
    by (auto simp: applyPagination_def Array_slice_def pageRecords_def Let_def nth_append)
  moreover from assms(2) have "h' = h @ [predictions r]"
    by (auto simp: applyPagination_def Array_slice_def Let_def)
  ultimately show ?thesis using p by (auto simp: prefix_def)
qed

lemma copy_owned: "mockPredictions < length h \<Longrightarrow> Array_copy mockPredictions h = (a, h1)
  \<Longrightarrow> owned h a h1 \<and> h1 ! a = h ! mockPredictions"
  by (auto simp: Array_copy_def owned_def nth_append)

lemma filteredSorted_value:
  assumes "mockPredictions < length h"
  shows "filteredSorted rt sp h =
           (case filterRecords rt sp (h ! mockPredictions) of
              Inl e \<Rightarrow> Inl e
            | Inr ys \<Rightarrow> Inr (sortRecords rt sp ys))"
proof -
  obtain a0 h0 where s0: "Array_copy mockPredictions h = (a0, h0)"
    by (cases "Array_copy mockPredictions h")
  obtain r1 h1 where s1: "applyFilters rt sp a0 h0 = (r1, h1)"
    by (cases "applyFilters rt sp a0 h0")
  from copy_owned [OF assms s0] have o0: "owned h a0 h0" and c0: "h0 ! a0 = h ! mockPredictions"
    by simp_all
  note f = applyFilters_step [OF o0 s1]
  show ?thesis
  proof (cases r1)
    case (Inl e)
    with f s0 s1 show ?thesis by (simp add: filteredSorted_def c0)
  next
    case (Inr a1)
    with f have o1: "owned h a1 h1" and c1: "filterRecords rt sp (h0 ! a0) = Inr (h1 ! a1)"
      by simp_all
    obtain a2 h2 where s2: "applySorting rt sp a1 h1 = (a2, h2)"
      by (cases "applySorting rt sp a1 h1")
    from applySorting_step [OF o1 s2] c1 s0 s1 s2 Inr show ?thesis
      by (simp add: filteredSorted_def c0)
  qed
qed

lemma predictionsCase_value:
  assumes "mockPredictions < length h"
  shows "fst (predictionsCase rt sp h) =
           (case filteredSorted rt sp h of
              Inl e \<Rightarrow> Inl e
            | Inr zs \<Rightarrow> Inr (PredictionsJson (pageRecords sp zs)))"
    and "prefix h (snd (predictionsCase rt sp h))"
proof -
  obtain a0 h0 where s0: "Array_copy mockPredictions h = (a0, h0)"
    by (cases "Array_copy mockPredictions h")
  obtain r1 h1 where s1: "applyFilters rt sp a0 h0 = (r1, h1)"
    by (cases "applyFilters rt sp a0 h0")
  from copy_owned [OF assms s0] have o0: "owned h a0 h0" by simp
  note f = applyFilters_step [OF o0 s1]
  have "fst (predictionsCase rt sp h) =
           (case filteredSorted rt sp h of
              Inl e \<Rightarrow> Inl e
            | Inr zs \<Rightarrow> Inr (PredictionsJson (pageRecords sp zs)))
        \<and> prefix h (snd (predictionsCase rt sp h))"
  proof (cases r1)
    case (Inl e)
    with f s0 s1 show ?thesis by (simp add: filteredSorted_def predictionsCase_def)
  next
    case (Inr a1)
    with f have o1: "owned h a1 h1" by simp
    obtain a2 h2 where s2: "applySorting rt sp a1 h1 = (a2, h2)"
      by (cases "applySorting rt sp a1 h1")
    obtain r3 h3 where s3: "applyPagination sp a2 h2 = (r3, h3)"
      by (cases "applyPagination sp a2 h2")
    from applySorting_step [OF o1 s2] have o2: "owned h a2 h2" by simp
    from applyPagination_step [OF o2 s3] s0 s1 s2 s3 Inr show ?thesis
      by (simp add: filteredSorted_def predictionsCase_def)
  qed
  then show "fst (predictionsCase rt sp h) =
           (case filteredSorted rt sp h of
              Inl e \<Rightarrow> Inl e
            | Inr zs \<Rightarrow> Inr (PredictionsJson (pageRecords sp zs)))"
    and "prefix h (snd (predictionsCase rt sp h))" by simp_all
qed


lemma GET_predictions_value:
  assumes "sp ''endpoint'' = Some ''predictions''" and "mockPredictions < length h"
  shows "fst (GET rt sp h) =
           (case filteredSorted rt sp h of
              Inl e \<Rightarrow> Inl e
            | Inr zs \<Rightarrow> Inr (PredictionsJson (pageRecords sp zs)))"
  using predictionsCase_value(1) [OF assms(2), of rt sp] assms(1)
  by (simp add: GET_def)

lemma breakdown_prefix: "prefix h (snd (breakdown key ks h))"
proof (induction ks arbitrary: h)
  case Nil
  show ?case by simp
next
  case (Cons k ks)
  have "prefix (h @ [filter (\<lambda>p. key p = k) (h ! mockPredictions)])
          (snd (breakdown key ks (h @ [filter (\<lambda>p. key p = k) (h ! mockPredictions)])))"
    by (rule Cons.IH)
  then have "prefix h (snd (breakdown key ks (h @ [filter (\<lambda>p. key p = k) (h ! mockPredictions)])))"
    by (meson prefix_order.order_trans prefixI)
  then show ?case
    by (auto simp: Array_filter_def split: prod.splits)
qed

lemma featured_prefix: "prefix h (snd (featured h))"
proof -
  have "owned h (length h) (h @ [filter (\<lambda>p. 80 \<le> confidence p) (h ! mockPredictions)])"
    by (rule owned_alloc) simp
  from owned_update [OF this] have "prefix h
     ((h @ [filter (\<lambda>p. 80 \<le> confidence p) (h ! mockPredictions)])
        [length h := sort' (\<lambda>a b. Some (confidence b - confidence a))
                      ((h @ [filter (\<lambda>p. 80 \<le> confidence p) (h ! mockPredictions)]) ! length h)])"
    by (simp add: owned_def)
  then show ?thesis
    by (auto simp: featured_def Array_filter_def Array_sort_def Array_slice_def prefix_def)
qed

lemma summaryCase_prefix: "prefix h (snd (summaryCase h))"
proof -
  obtain s1 h1 where b1: "breakdown sport [''NBA'', ''NFL'', ''MLB'', ''NHL'', ''Soccer''] h = (s1, h1)"
    by (cases "breakdown sport [''NBA'', ''NFL'', ''MLB'', ''NHL'', ''Soccer''] h")
  obtain s2 h2 where b2: "breakdown confidenceCategory
       [''Very High'', ''High'', ''Moderate'', ''Low'', ''Very Low''] h1 = (s2, h2)"
    by (cases "breakdown confidenceCategory
       [''Very High'', ''High'', ''Moderate'', ''Low'', ''Very Low''] h1")
  obtain s3 h3 where b3: "featured h2 = (s3, h3)"
    by (cases "featured h2")
  have "prefix h h1" using breakdown_prefix [of h sport] b1 by (metis snd_conv)
  moreover have "prefix h1 h2" using breakdown_prefix [of h1 confidenceCategory] b2 by (metis snd_conv)
  moreover have "prefix h2 h3" using featured_prefix [of h2] b3 by simp
  ultimately have "prefix h h3" by (meson prefix_order.order_trans)
  then show ?thesis
    using b1 b2 b3 by (simp add: summaryCase_def)
qed

lemma GET_prefix:
  assumes "mockPredictions < length h"
  shows "prefix h (snd (GET rt sp h))"
  using predictionsCase_value(2) [OF assms, of rt sp] summaryCase_prefix [of h]
  by (auto simp: GET_def Let_def split: prod.splits)

section \<open>Parameters that a block does not read\<close>

lemma filters_ignore:
  assumes "k \<notin> set [''sport'', ''minConfidence'', ''date'', ''stat'', ''team'', ''player'']"
  shows "sportFilter (sp(k := v)) = sportFilter sp"
    and "confidenceFilter (sp(k := v)) = confidenceFilter sp"
    and "dateFilter rt (sp(k := v)) = dateFilter rt sp"
    and "statFilter (sp(k := v)) = statFilter sp"
    and "teamFilter (sp(k := v)) = teamFilter sp"
    and "playerFilter rt (sp(k := v)) = playerFilter rt sp"
  using assms
  by (auto simp: sportFilter_def confidenceFilter_def dateFilter_def statFilter_def
      teamFilter_def playerFilter_def intro!: ext)

lemma applyFilters_ignore:
  assumes "k \<notin> set [''sport'', ''minConfidence'', ''date'', ''stat'', ''team'', ''player'']"
  shows "applyFilters rt (sp(k := v)) = applyFilters rt sp"
  by (intro ext) (simp only: applyFilters_def filters_ignore [OF assms])

lemma applyFilters_sortBy: "applyFilters rt (sp(''sortBy'' := v)) = applyFilters rt sp"
  by (rule applyFilters_ignore) simp

lemma applyFilters_sortOrder: "applyFilters rt (sp(''sortOrder'' := v)) = applyFilters rt sp"
  by (rule applyFilters_ignore) simp

lemma applyPagination_sortBy: "applyPagination (sp(''sortBy'' := v)) = applyPagination sp"
  by (intro ext) (simp add: applyPagination_def)

lemma applyPagination_sortOrder: "applyPagination (sp(''sortOrder'' := v)) = applyPagination sp"
  by (intro ext) (simp add: applyPagination_def)




lemma compareFn_unknown:
  assumes "s \<notin> set [''confidence'', ''gameTime'', ''player'', ''line'', ''predictedValue'']"
  shows "compareFn rt s ord = compareFn rt ''confidence'' ord"
  using assms by (intro ext) (simp add: compareFn_def)

lemma compareFn_not_asc:
  assumes "ord \<noteq> ''asc''"
  shows "compareFn rt s ord = compareFn rt s ''desc''"
  using assms by (intro ext) (simp add: compareFn_def)

section \<open>Slices\<close>


lemma slice_nonneg:
  assumes "0 \<le> s" and "s \<le> e"
  shows "slice (Some s) (Some e) xs = take (nat e - nat s) (drop (nat s) xs)"
proof -
  have "relativeIndex (length xs) (Some s) = min (nat s) (length xs)"
    and "relativeIndex (length xs) (Some e) = min (nat e) (length xs)"
    using assms by (auto simp: relativeIndex_def)
  then show ?thesis
    by (auto simp: slice_def Let_def min_def)
qed




section \<open>Substrings\<close>

lemma startsWith_iff: "startsWith hay needle \<longleftrightarrow> (\<exists>v. hay = needle @ v)"
  by (induction hay needle rule: startsWith.induct) auto

lemma String_includes_iff: "String_includes hay needle \<longleftrightarrow> (\<exists>u v. hay = u @ needle @ v)"
proof (induction hay)
  case Nil
  show ?case by auto
next
  case (Cons h hs)
  show ?case
  proof
    assume "String_includes (h # hs) needle"
    then consider "startsWith (h # hs) needle" | "String_includes hs needle" by auto
    then show "\<exists>u v. h # hs = u @ needle @ v"
    proof cases
      case 1
      then obtain v where "h # hs = needle @ v" by (auto simp: startsWith_iff)
      then have "h # hs = [] @ needle @ v" by simp
      then show ?thesis by blast
    next
      case 2
      with Cons obtain u v where "hs = u @ needle @ v" by blast
      then have "h # hs = (h # u) @ needle @ v" by simp
      then show ?thesis by blast
    qed
  next
    assume "\<exists>u v. h # hs = u @ needle @ v"
    then obtain u v where e: "h # hs = u @ needle @ v" by blast
    show "String_includes (h # hs) needle"
    proof (cases u)
      case Nil
      with e have "startsWith (h # hs) needle" by (auto simp: startsWith_iff)
      then show ?thesis by simp
    next
      case (Cons c cs)
      with e have "hs = cs @ needle @ v" by simp
      with Cons.IH have "String_includes hs needle" by blast
      then show ?thesis by simp
    qed
  qed
qed

section \<open>The text of a date\<close>

declare decimal.simps [simp del]

lemma digitValue_char_of:
  assumes "k < 10"
  shows "digitValue (char_of (48 + k)) = Some k"
proof -
  have "of_char (char_of (48 + k)) = (48 + k) mod 256"
    by (rule of_char_of)
  also have "\<dots> = 48 + k" using assms by simp
  finally show ?thesis using assms by (simp add: digitValue_def Let_def)
qed

lemma isDigit_char_of: "isDigit 10 (char_of (48 + (n :: nat) mod 10))"
  using digitValue_char_of [of "n mod 10"] by (simp add: isDigit_def)

lemma digitsValue_snoc:
  "digitsValue R (Z @ [c]) = digitsValue R Z * R + (case digitValue c of None \<Rightarrow> 0 | Some d \<Rightarrow> d)"
  by (simp add: digitsValue_def)

lemma decimal_digits: "list_all (isDigit 10) (decimal w n)"
proof (induction w n rule: decimal.induct)
  case (1 n)
  then show ?case by (cases "n = 0") (simp_all add: decimal.simps isDigit_char_of)
next
  case (2 w n)
  then show ?case by (simp add: decimal.simps isDigit_char_of)
qed

lemma decimal_value: "digitsValue 10 (decimal w n) = n"
proof (induction w n rule: decimal.induct)
  case (1 n)
  show ?case
  proof (cases "n = 0")
    case True
    then show ?thesis by (simp add: decimal.simps digitsValue_def)
  next
    case False
    with 1 have "digitsValue 10 (decimal 0 (n div 10)) = n div 10" by simp
    with False show ?thesis
      using digitValue_char_of [of "n mod 10"]
      by (simp add: decimal.simps(1) [of n] digitsValue_snoc)
  qed
next
  case (2 w n)
  then show ?case
    using digitValue_char_of [of "n mod 10"]
    by (simp add: decimal.simps digitsValue_snoc)
qed

lemma decimal_inj: "decimal w n = decimal w' n' \<Longrightarrow> n = n'"
  by (metis decimal_value)

lemma decimal_no_sign: "CHR ''-'' \<notin> set (decimal w n)" "CHR ''+'' \<notin> set (decimal w n)"
proof -
  have "\<not> isDigit 10 CHR ''-''" "\<not> isDigit 10 CHR ''+''"
    by (simp_all add: isDigit_def digitValue_def)
  with decimal_digits [of w n] show "CHR ''-'' \<notin> set (decimal w n)" "CHR ''+'' \<notin> set (decimal w n)"
    by (auto simp: list_all_iff)
qed

lemma decimal_Suc_nonempty: "decimal (Suc w) n \<noteq> []"
  by (simp add: decimal.simps)

lemma split_at_first:
  assumes "xs @ c # ys = xs' @ c # ys'" and "c \<notin> set xs" and "c \<notin> set xs'"
  shows "xs = xs' \<and> ys = ys'"
  using assms
proof (induction xs arbitrary: xs')
  case Nil
  then show ?case by (cases xs') auto
next
  case (Cons x xs)
  then show ?case by (cases xs') auto
qed

lemma yearString_cases:
  obtains (plain) "0 \<le> y" "y \<le> 9999" "yearString y = decimal 4 (nat y)"
  | (minus) "y < 0" "yearString y = CHR ''-'' # decimal 6 (nat \<bar>y\<bar>)"
  | (plus) "9999 < y" "yearString y = CHR ''+'' # decimal 6 (nat \<bar>y\<bar>)"
  by (cases "0 \<le> y \<and> y \<le> 9999"; cases "y < 0") (auto simp: yearString_def)

lemma decimal4_hd: "\<exists>c cs. decimal 4 n = c # cs \<and> c \<noteq> CHR ''-'' \<and> c \<noteq> CHR ''+''"
proof -
  have "decimal 4 n \<noteq> []"
    using decimal_Suc_nonempty [of 3 n] by (simp add: eval_nat_numeral)
  then obtain c cs where e: "decimal 4 n = c # cs" by (cases "decimal 4 n") auto
  with decimal_no_sign [of 4 n] show ?thesis by auto
qed

lemma year_prefix_inj:
  assumes "yearString y @ CHR ''-'' # r = yearString y' @ CHR ''-'' # r'"
  shows "y = y' \<and> r = r'"
proof -
  obtain c cs where p: "decimal 4 (nat y) = c # cs" "c \<noteq> CHR ''-''" "c \<noteq> CHR ''+''"
    using decimal4_hd by blast
  obtain c' cs' where p': "decimal 4 (nat y') = c' # cs'" "c' \<noteq> CHR ''-''" "c' \<noteq> CHR ''+''"
    using decimal4_hd by blast
  show ?thesis
  proof (cases y rule: yearString_cases)
    case plain
    show ?thesis
    proof (cases y' rule: yearString_cases)
      case plain': plain
      from assms(1) plain(3) plain'(3)
      have "decimal 4 (nat y) @ CHR ''-'' # r = decimal 4 (nat y') @ CHR ''-'' # r'" by simp
      from split_at_first [OF this decimal_no_sign(1) decimal_no_sign(1)]
      have "decimal 4 (nat y) = decimal 4 (nat y')" "r = r'" by simp_all
      with decimal_inj plain(1) plain'(1) show ?thesis by fastforce
    next
      case minus
      with assms(1) plain(3) p show ?thesis by simp
    next
      case plus
      with assms(1) plain(3) p show ?thesis by simp
    qed
  next
    case minus
    show ?thesis
    proof (cases y' rule: yearString_cases)
      case plain
      with assms(1) minus(2) p' show ?thesis by simp
    next
      case minus': minus
      from assms(1) minus(2) minus'(2)
      have "decimal 6 (nat \<bar>y\<bar>) @ CHR ''-'' # r = decimal 6 (nat \<bar>y'\<bar>) @ CHR ''-'' # r'" by simp
      from split_at_first [OF this decimal_no_sign(1) decimal_no_sign(1)]
      have "decimal 6 (nat \<bar>y\<bar>) = decimal 6 (nat \<bar>y'\<bar>)" "r = r'" by simp_all
      with decimal_inj have "nat \<bar>y\<bar> = nat \<bar>y'\<bar>" by blast
      with minus(1) minus'(1) \<open>r = r'\<close> show ?thesis by simp
    next
      case plus
      with assms(1) minus(2) show ?thesis by simp
    qed
  next
    case plus
    show ?thesis
    proof (cases y' rule: yearString_cases)
      case plain
      with assms(1) plus(2) p' show ?thesis by simp
    next
      case minus
      with assms(1) plus(2) show ?thesis by simp
    next
      case plus': plus
      from assms(1) plus(2) plus'(2)
      have "decimal 6 (nat \<bar>y\<bar>) @ CHR ''-'' # r = decimal 6 (nat \<bar>y'\<bar>) @ CHR ''-'' # r'" by simp
      from split_at_first [OF this decimal_no_sign(1) decimal_no_sign(1)]
      have "decimal 6 (nat \<bar>y\<bar>) = decimal 6 (nat \<bar>y'\<bar>)" "r = r'" by simp_all
      with decimal_inj have "nat \<bar>y\<bar> = nat \<bar>y'\<bar>" by blast
      with plus(1) plus'(1) \<open>r = r'\<close> show ?thesis by simp
    qed
  qed
qed

lemma isoDate_inj: "isoDate (Some t) = isoDate (Some u) \<longleftrightarrow> utcDate t = utcDate u"
proof
  assume eq: "isoDate (Some t) = isoDate (Some u)"
  obtain y m d where t: "utcDate t = (y, m, d)" by (cases "utcDate t")
  obtain y' m' d' where u: "utcDate u = (y', m', d')" by (cases "utcDate u")
  from eq t u have e1:
    "yearString y @ CHR ''-'' # (decimal 2 m @ CHR ''-'' # decimal 2 d)
       = yearString y' @ CHR ''-'' # (decimal 2 m' @ CHR ''-'' # decimal 2 d')"
    by (simp add: isoDate_def)
  from year_prefix_inj [OF e1]
  have y: "y = y'"
    and e2: "decimal 2 m @ CHR ''-'' # decimal 2 d = decimal 2 m' @ CHR ''-'' # decimal 2 d'"
    by simp_all
  from split_at_first [OF e2 decimal_no_sign(1) decimal_no_sign(1)]
  have "decimal 2 m = decimal 2 m'" "decimal 2 d = decimal 2 d'" by simp_all
  with decimal_inj have "m = m'" "d = d'" by blast+
  with y t u show "utcDate t = utcDate u" by simp
next
  assume "utcDate t = utcDate u"
  then show "isoDate (Some t) = isoDate (Some u)" by (simp add: isoDate_def)
qed

lemma isoDate_Some: "\<exists>s. isoDate (Some t) = Inr s"
  by (simp add: isoDate_def split: prod.splits)

lemma onDate_valid:
  assumes "isoDate (Some t) = Inr td" and "newDate rt (gameTime p) = Some u"
  shows "onDate rt td p = Inr (utcDate u = utcDate t)"
proof -
  obtain s where s: "isoDate (Some u) = Inr s"
    using isoDate_Some by blast
  have "(s = td) = (isoDate (Some u) = isoDate (Some t))"
    using assms(1) s by simp
  also have "\<dots> = (utcDate u = utcDate t)"
    by (rule isoDate_inj)
  finally show ?thesis
    using assms(2) s by (simp add: onDate_def)
qed

section \<open>What the filters keep\<close>

lemma filterE_all_Inr:
  assumes "\<forall>x\<in>set xs. P x = Inr (Q x)"
  shows "filterE P xs = Inr (filter Q xs)"
  using assms by (induction xs) simp_all

lemma filterE_Inr_D:
  assumes "filterE P xs = Inr ys"
  shows "ys = filter (\<lambda>x. P x = Inr True) xs"
  using assms
proof (induction xs arbitrary: ys)
  case Nil
  then show ?case by simp
next
  case (Cons x xs)
  then show ?case
    by (auto split: sum.splits if_splits)
qed

lemma dateRecords_cases:
  obtains (inactive) "\<And>xs. dateRecords rt F xs = Inr xs"
  | (invalid) e where "\<And>xs. dateRecords rt F xs = Inl e"
  | (active) td where "\<And>xs. dateRecords rt F xs = filterE (onDate rt td) xs"
proof (cases "F ''date'' = None \<or> F ''date'' = Some []")
  case True
  then have "\<And>xs. dateRecords rt F xs = Inr xs"
    by (auto simp: dateRecords_def whenTruthy_def)
  then show ?thesis by (rule inactive)
next
  case False
  then obtain d where d: "F ''date'' = Some d" "d \<noteq> []" by auto
  show ?thesis
  proof (cases "isoDate (newDate rt d)")
    case (Inl e)
    with d have "\<And>xs. dateRecords rt F xs = Inl e"
      by (simp add: dateRecords_def whenTruthy_def)
    then show ?thesis by (rule invalid)
  next
    case (Inr td)
    with d have "\<And>xs. dateRecords rt F xs = filterE (onDate rt td) xs"
      by (simp add: dateRecords_def whenTruthy_def)
    then show ?thesis by (rule active)
  qed
qed

lemma dateRecords_valid:
  assumes "validDates rt F xs" and "set zs \<subseteq> set xs"
  shows "dateRecords rt F zs =
           Inr (filter (\<lambda>p. whenTruthy (F ''date'') (\<lambda>d. sameUtcDate rt (gameTime p) d) True) zs)"
proof (cases "F ''date'' = None \<or> F ''date'' = Some []")
  case True
  then show ?thesis by (auto simp: dateRecords_def whenTruthy_def)
next
  case False
  then obtain d where d: "F ''date'' = Some d" "d \<noteq> []" by auto
  with assms(1) obtain t where t: "newDate rt d = Some t"
    and v: "\<forall>p\<in>set xs. newDate rt (gameTime p) \<noteq> None"
    by (auto simp: validDates_def whenTruthy_def list_all_iff)
  obtain td where td: "isoDate (Some t) = Inr td"
    using isoDate_Some by blast
  have "\<forall>p\<in>set zs. onDate rt td p = Inr (sameUtcDate rt (gameTime p) d)"
  proof
    fix p assume "p \<in> set zs"
    with assms(2) v obtain u where u: "newDate rt (gameTime p) = Some u" by auto
    from onDate_valid [OF td u] show "onDate rt td p = Inr (sameUtcDate rt (gameTime p) d)"
      by (simp add: sameUtcDate_def u t)
  qed
  from filterE_all_Inr [OF this] show ?thesis
    using d t td by (simp add: dateRecords_def whenTruthy_def)
qed


lemma dateRecords_again:
  assumes "dateRecords rt F xs = Inr ys" and "set zs \<subseteq> set ys"
  shows "dateRecords rt F zs = Inr zs" and "set ys \<subseteq> set xs"
proof -
  have "dateRecords rt F zs = Inr zs \<and> set ys \<subseteq> set xs"
  proof (cases rt F rule: dateRecords_cases)
    case inactive
    with assms show ?thesis by simp
  next
    case (invalid e)
    with assms show ?thesis by simp
  next
    case (active td)
    with assms(1) have f: "filterE (onDate rt td) xs = Inr ys" by simp
    from filterE_Inr_D [OF f] assms(2)
    have "\<forall>p\<in>set zs. onDate rt td p = Inr ((\<lambda>_. True) p)" and "set ys \<subseteq> set xs"
      by auto
    with filterE_all_Inr [of zs "onDate rt td" "\<lambda>_. True"] active show ?thesis
      by simp
  qed
  then show "dateRecords rt F zs = Inr zs" and "set ys \<subseteq> set xs" by simp_all
qed

lemma filterRecords_again:
  assumes "filterRecords rt F xs = Inr ys"
  shows "filterRecords rt F ys = Inr ys"
proof -
  let ?P1 = "\<lambda>p. whenTruthy (F ''sport'') (\<lambda>s. sportIs s p) True"
  let ?P2 = "\<lambda>p. whenTruthy (F ''minConfidence'') (\<lambda>s. confidenceAtLeast s p) True"
  let ?P4 = "\<lambda>p. whenTruthy (F ''stat'') (\<lambda>s. statIs s p) True"
  let ?P5 = "\<lambda>p. whenTruthy (F ''team'') (\<lambda>s. teamIs s p) True"
  let ?P6 = "\<lambda>p. whenTruthy (F ''player'') (\<lambda>s. playerHas rt s p) True"
  from assms obtain xs3 where d: "dateRecords rt F (filter ?P2 (filter ?P1 xs)) = Inr xs3"
    and ys: "ys = filter ?P6 (filter ?P5 (filter ?P4 xs3))"
    by (auto simp: filterRecords_def split: sum.splits)
  have sub3: "set ys \<subseteq> set xs3" using ys by auto
  from dateRecords_again [OF d sub3]
  have again: "dateRecords rt F ys = Inr ys"
    and "set xs3 \<subseteq> set (filter ?P2 (filter ?P1 xs))"
    by simp_all
  then have in12: "\<forall>p\<in>set xs3. ?P1 p \<and> ?P2 p"
    by auto
  have all: "\<forall>p\<in>set ys. ?P1 p \<and> ?P2 p \<and> ?P4 p \<and> ?P5 p \<and> ?P6 p"
    using in12 sub3 ys by auto
  then have f12: "filter ?P2 (filter ?P1 ys) = ys"
    by (simp add: filter_id_conv)
  from all have f456: "filter ?P6 (filter ?P5 (filter ?P4 ys)) = ys"
    by (simp add: filter_id_conv)
  from again f12 f456 show ?thesis
    by (simp add: filterRecords_def)
qed

lemma dateFilter_invalid:
  assumes "F ''date'' = Some d" and "d \<noteq> []" and "newDate rt d = None"
  shows "dateFilter rt F a h = (Inl RangeError, h)"
  using assms by (simp add: dateFilter_def whenTruthy_def isoDate_def)

lemma applyFilters_invalid:
  assumes "F ''date'' = Some d" and "d \<noteq> []" and "newDate rt d = None"
  shows "fst (applyFilters rt F a h) = Inl RangeError"
  using assms
  by (simp add: applyFilters_def dateFilter_invalid [where d = d] split: prod.splits)

section \<open>The sort\<close>





lemma insertSorted_insort_key:
  "insertSorted (\<lambda>a b. Some (confidence b - confidence a)) x ys
     = insort_key (\<lambda>p. - confidence p) x ys"
  by (induction ys) (auto simp: sortsAfter_def)

lemma sort'_sort_key:
  "sort' (\<lambda>a b. Some (confidence b - confidence a)) xs = sort_key (\<lambda>p. - confidence p) xs"
  by (induction xs) (simp_all add: insertSorted_insort_key)

lemma featured_value:
  assumes "mockPredictions < length h"
  shows "fst (featured h) = featuredSpec (h ! mockPredictions)"
proof -
  have "slice (Some 0) (Some 3) xs = take 3 xs" for xs :: "PredictionData list"
    using slice_nonneg [of 0 3 xs] by simp
  then show ?thesis
    using assms
    by (simp add: featured_def Array_filter_def Array_sort_def Array_slice_def featuredSpec_def
        nth_append sort'_sort_key)
qed

lemma breakdown_snapshot:
  assumes "mockPredictions < length h"
  shows "snd (breakdown key ks h) ! mockPredictions = h ! mockPredictions"
    and "mockPredictions < length (snd (breakdown key ks h))"
  using breakdown_prefix [of h key ks] assms
  by (auto simp: prefix_def nth_append)

section \<open>Evaluating the examples\<close>

text \<open>The fields of the fourteen records that the handler reads.\<close>

named_theorems fields

lemma prediction1_fields [fields]:
  "player prediction1 = ''LeBron James''"
  "team prediction1 = ''LAL''"
  "opponent prediction1 = ''BOS''"
  "gameTime prediction1 = ''2025-03-21T20:00:00Z''"
  "sport prediction1 = ''NBA''"
  "stat prediction1 = ''Points''"
  "line prediction1 = 25.5"
  "predictedValue prediction1 = 27.5"
  "confidence prediction1 = 80"
  "confidenceCategory prediction1 = ''High''"
  by (simp_all add: prediction1_def)

lemma prediction2_fields [fields]:
  "player prediction2 = ''Stephen Curry''"
  "team prediction2 = ''GSW''"
  "opponent prediction2 = ''PHX''"
  "gameTime prediction2 = ''2025-03-21T22:30:00Z''"
  "sport prediction2 = ''NBA''"
  "stat prediction2 = ''3-Pointers''"
  "line prediction2 = 4.5"
  "predictedValue prediction2 = 5.8"
  "confidence prediction2 = 92"
  "confidenceCategory prediction2 = ''Very High''"
  by (simp_all add: prediction2_def)

lemma prediction3_fields [fields]:
  "player prediction3 = ''Nikola Joki'' @ [CHR 0xC4, CHR 0x87]"
  "team prediction3 = ''DEN''"
  "opponent prediction3 = ''MIA''"
  "gameTime prediction3 = ''2025-03-22T19:00:00Z''"
  "sport prediction3 = ''NBA''"
  "stat prediction3 = ''Assists''"
  "line prediction3 = 8.5"
  "predictedValue prediction3 = 10.2"
  "confidence prediction3 = 85"
  "confidenceCategory prediction3 = ''High''"
  by (simp_all add: prediction3_def)

lemma prediction4_fields [fields]:
  "player prediction4 = ''Joel Embiid''"
  "team prediction4 = ''PHI''"
  "opponent prediction4 = ''NYK''"
  "gameTime prediction4 = ''2025-03-22T19:30:00Z''"
  "sport prediction4 = ''NBA''"
  "stat prediction4 = ''Rebounds''"
  "line prediction4 = 11.5"
  "predictedValue prediction4 = 10.3"
  "confidence prediction4 = 75"
  "confidenceCategory prediction4 = ''High''"
  by (simp_all add: prediction4_def)

lemma prediction5_fields [fields]:
  "player prediction5 = ''Luka Don'' @ [CHR 0xC4, CHR 0x8D] @ ''i'' @ [CHR 0xC4, CHR 0x87]"
  "team prediction5 = ''DAL''"
  "opponent prediction5 = ''LAC''"
  "gameTime prediction5 = ''2025-03-22T20:30:00Z''"
  "sport prediction5 = ''NBA''"
  "stat prediction5 = ''Points + Rebounds + Assists''"
  "line prediction5 = 47.5"
  "predictedValue prediction5 = 52.3"
  "confidence prediction5 = 70"
  "confidenceCategory prediction5 = ''Moderate''"
  by (simp_all add: prediction5_def)

lemma prediction6_fields [fields]:
  "player prediction6 = ''Jayson Tatum''"
  "team prediction6 = ''BOS''"
  "opponent prediction6 = ''LAL''"
  "gameTime prediction6 = ''2025-03-21T20:00:00Z''"
  "sport prediction6 = ''NBA''"
  "stat prediction6 = ''Points''"
  "line prediction6 = 28.5"
  "predictedValue prediction6 = 26.8"
  "confidence prediction6 = 65"
  "confidenceCategory prediction6 = ''Moderate''"
  by (simp_all add: prediction6_def)

lemma prediction7_fields [fields]:
  "player prediction7 = ''Patrick Mahomes''"
  "team prediction7 = ''KC''"
  "opponent prediction7 = ''BAL''"
  "gameTime prediction7 = ''2025-03-23T18:00:00Z''"
  "sport prediction7 = ''NFL''"
  "stat prediction7 = ''Passing Yards''"
  "line prediction7 = 285.5"
  "predictedValue prediction7 = 310.2"
  "confidence prediction7 = 75"
  "confidenceCategory prediction7 = ''High''"
  by (simp_all add: prediction7_def)

lemma prediction8_fields [fields]:
  "player prediction8 = ''Lamar Jackson''"
  "team prediction8 = ''BAL''"
  "opponent prediction8 = ''KC''"
  "gameTime prediction8 = ''2025-03-23T18:00:00Z''"
  "sport prediction8 = ''NFL''"
  "stat prediction8 = ''Rushing Yards''"
  "line prediction8 = 65.5"
  "predictedValue prediction8 = 78.3"
  "confidence prediction8 = 72"
  "confidenceCategory prediction8 = ''High''"
  by (simp_all add: prediction8_def)

lemma prediction9_fields [fields]:
  "player prediction9 = ''Shohei Ohtani''"
  "team prediction9 = ''LAD''"
  "opponent prediction9 = ''SF''"
  "gameTime prediction9 = ''2025-03-22T21:10:00Z''"
  "sport prediction9 = ''MLB''"
  "stat prediction9 = ''Strikeouts''"
  "line prediction9 = 7.5"
  "predictedValue prediction9 = 8.7"
  "confidence prediction9 = 68"
  "confidenceCategory prediction9 = ''Moderate''"
  by (simp_all add: prediction9_def)

lemma prediction10_fields [fields]:
  "player prediction10 = ''Aaron Judge''"
  "team prediction10 = ''NYY''"
  "opponent prediction10 = ''BOS''"
  "gameTime prediction10 = ''2025-03-22T18:05:00Z''"
  "sport prediction10 = ''MLB''"
  "stat prediction10 = ''Total Bases''"
  "line prediction10 = 1.5"
  "predictedValue prediction10 = 2.3"
  "confidence prediction10 = 82"
  "confidenceCategory prediction10 = ''High''"
  by (simp_all add: prediction10_def)

lemma prediction11_fields [fields]:
  "player prediction11 = ''Connor McDavid''"
  "team prediction11 = ''EDM''"
  "opponent prediction11 = ''VGK''"
  "gameTime prediction11 = ''2025-03-22T22:00:00Z''"
  "sport prediction11 = ''NHL''"
  "stat prediction11 = ''Points''"
  "line prediction11 = 1.5"
  "predictedValue prediction11 = 1.8"
  "confidence prediction11 = 67"
  "confidenceCategory prediction11 = ''Moderate''"
  by (simp_all add: prediction11_def)

lemma prediction12_fields [fields]:
  "player prediction12 = ''Auston Matthews''"
  "team prediction12 = ''TOR''"
  "opponent prediction12 = ''MTL''"
  "gameTime prediction12 = ''2025-03-22T19:00:00Z''"
  "sport prediction12 = ''NHL''"
  "stat prediction12 = ''Shots on Goal''"
  "line prediction12 = 4.5"
  "predictedValue prediction12 = 5.7"
  "confidence prediction12 = 85"
  "confidenceCategory prediction12 = ''High''"
  by (simp_all add: prediction12_def)

lemma prediction13_fields [fields]:
  "player prediction13 = ''Erling Haaland''"
  "team prediction13 = ''MCI''"
  "opponent prediction13 = ''ARS''"
  "gameTime prediction13 = ''2025-03-23T16:30:00Z''"
  "sport prediction13 = ''Soccer''"
  "stat prediction13 = ''Shots on Target''"
  "line prediction13 = 2.5"
  "predictedValue prediction13 = 3.2"
  "confidence prediction13 = 73"
  "confidenceCategory prediction13 = ''High''"
  by (simp_all add: prediction13_def)

lemma prediction14_fields [fields]:
  "player prediction14 = ''Mohamed Salah''"
  "team prediction14 = ''LIV''"
  "opponent prediction14 = ''CHE''"
  "gameTime prediction14 = ''2025-03-23T14:00:00Z''"
  "sport prediction14 = ''Soccer''"
  "stat prediction14 = ''Goal Contributions''"
  "line prediction14 = 0.5"
  "predictedValue prediction14 = 0.9"
  "confidence prediction14 = 78"
  "confidenceCategory prediction14 = ''High''"
  by (simp_all add: prediction14_def)

text \<open>The definitions that evaluate a query on the data of the module.\<close>

lemmas eval_defs =
  GET_predictions_value filteredSorted_value initialHeap_def mockPredictions_def mockData_def
  filterRecords_def dateRecords_def sortRecords_def pageRecords_def query_def
  whenTruthy_def orElse_def sportIs_def confidenceAtLeast_def statIs_def teamIs_def
  playerHas_def compareFn_def sortsAfter_def
  parseInt_def isWhiteSpace_def isDigit_def digitValue_def digitsValue_def
  subN_def mulN_def slice_def relativeIndex_def Math_ceil_div_def Let_def


section \<open>Filtering\<close>



text \<open>
  C8. Filtering the result of the filter step again, with the same filter, gives the
  same records: the second pass succeeds and keeps all of them.
\<close>

theorem filter_idempotent:
  assumes "a < length h" and "applyFilters rt F a h = (Inr a1, h1)"
  shows "\<exists>a2 h2. applyFilters rt F a1 h1 = (Inr a2, h2) \<and> h2 ! a2 = h1 ! a1"
proof -
  have "owned [] a h" using assms(1) by (simp add: owned_def)
  from applyFilters_step [OF this assms(2)]
  have o1: "owned [] a1 h1" and v1: "filterRecords rt F (h ! a) = Inr (h1 ! a1)"
    by simp_all
  obtain r2 h2 where s2: "applyFilters rt F a1 h1 = (r2, h2)"
    by (cases "applyFilters rt F a1 h1")
  from applyFilters_step [OF o1 s2] filterRecords_again [OF v1] s2
  show ?thesis
    by (cases r2) auto
qed

text \<open>The six records of the NBA, filtered for the NBA again.\<close>

theorem filter_idempotent_witness:
  "\<exists>a2 h2. applyFilters plainRuntime nbaPage99Query 1
              [mockData, [prediction1, prediction2, prediction3, prediction4, prediction5, prediction6]]
            = (Inr a2, h2)
      \<and> h2 ! a2 = [prediction1, prediction2, prediction3, prediction4, prediction5, prediction6]"
proof -
  have a: "mockPredictions < length initialHeap"
    by (simp add: mockPredictions_def initialHeap_def)
  have s: "applyFilters plainRuntime nbaPage99Query mockPredictions initialHeap =
      (Inr 1, [mockData, [prediction1, prediction2, prediction3, prediction4, prediction5, prediction6]])"
    by (simp add: applyFilters_def sportFilter_def confidenceFilter_def dateFilter_def
        statFilter_def teamFilter_def playerFilter_def Array_filter_def nbaPage99Query_def
        query_def whenTruthy_def sportIs_def initialHeap_def mockPredictions_def mockData_def fields)
  from filter_idempotent [OF a s] show ?thesis
    by simp
qed

text \<open>
  C10. The date filter compares UTC calendar days: with a date \<open>d\<close> that parses to the
  instant \<open>t\<close>, it keeps the records whose game time has the UTC date of \<open>t\<close>, the
  date of the day number \<open>floor(t / 86400000)\<close>. No local time zone enters.
\<close>

theorem date_filter_is_utc:
  assumes "a < length h"
    and "F ''date'' = Some d" and "d \<noteq> []" and "newDate rt d = Some t"
    and "list_all (\<lambda>p. newDate rt (gameTime p) \<noteq> None) (h ! a)"
  shows "\<exists>a' h'. dateFilter rt F a h = (Inr a', h')
           \<and> h' ! a' = filter (\<lambda>p. map_option utcDate (newDate rt (gameTime p)) = Some (utcDate t)) (h ! a)
           \<and> utcDate t = civilFromDays (t div 86400000)"
proof -
  obtain r h' where s: "dateFilter rt F a h = (r, h')"
    by (cases "dateFilter rt F a h")
  have o: "owned [] a h" using assms(1) by (simp add: owned_def)
  have v: "validDates rt F (h ! a)"
    using assms(2-5) by (simp add: validDates_def whenTruthy_def)
  have "filter (\<lambda>p. whenTruthy (F ''date'') (\<lambda>d. sameUtcDate rt (gameTime p) d) True) (h ! a)
      = filter (\<lambda>p. map_option utcDate (newDate rt (gameTime p)) = Some (utcDate t)) (h ! a)"
    using assms(2-4)
    by (intro filter_cong [OF refl]) (auto simp: whenTruthy_def sameUtcDate_def split: option.splits)
  with dateFilter_step [OF o s] dateRecords_valid [OF v subset_refl] s
  show ?thesis
    by (cases r) (auto simp: utcDate_def Day_def msPerDay_def)
qed

text \<open>A game at 2025-03-21T23:30:00Z is kept for the date 2025-03-21 and dropped for
  2025-03-22.\<close>

theorem date_filter_is_utc_witness:
  "(\<exists>a' h'. dateFilter plainRuntime march21Query 0 [[lateGame]] = (Inr a', h')
       \<and> h' ! a' = [lateGame])
   \<and> (\<exists>a' h'. dateFilter plainRuntime march22Query 0 [[lateGame]] = (Inr a', h')
       \<and> h' ! a' = [])"
proof -
  have a: "0 < length [[lateGame]]" by simp
  have g: "newDate plainRuntime (gameTime lateGame) = Some 1742599800000"
    by code_simp
  then have v: "list_all (\<lambda>p. newDate plainRuntime (gameTime p) \<noteq> None) ([[lateGame]] ! 0)"
    by simp
  have d1: "march21Query ''date'' = Some ''2025-03-21''" "''2025-03-21'' \<noteq> []"
    and d2: "march22Query ''date'' = Some ''2025-03-22''" "''2025-03-22'' \<noteq> []"
    by (simp_all add: march21Query_def march22Query_def query_def)
  have t1: "newDate plainRuntime ''2025-03-21'' = Some 1742515200000"
    and t2: "newDate plainRuntime ''2025-03-22'' = Some 1742601600000"
    by code_simp+
  have u: "utcDate 1742599800000 = (2025, 3, 21)" "utcDate 1742515200000 = (2025, 3, 21)"
    "utcDate 1742601600000 = (2025, 3, 22)"
    by code_simp+
  from date_filter_is_utc [where a = 0 and h = "[[lateGame]]" and F = march21Query
      and d = "''2025-03-21''" and rt = plainRuntime and t = 1742515200000]
    date_filter_is_utc [where a = 0 and h = "[[lateGame]]" and F = march22Query
      and d = "''2025-03-22''" and rt = plainRuntime and t = 1742601600000]
    d1 d2 t1 t2 v g u
  show ?thesis by auto
qed

section \<open>Pagination\<close>








section \<open>Sorting\<close>

text \<open>
  C2, as the handler has it. A \<open>sortBy\<close> that is none of the five fields is answered
  as \<open>sortBy=confidence\<close> is, with the \<open>sortOrder\<close> of the request: the order is
  descending unless \<open>sortOrder\<close> is \<open>asc\<close>. The sort has no way to fail.
\<close>

theorem unknown_sortBy_is_confidence:
  assumes "searchParams ''sortBy'' = Some s"
    and "s \<notin> set [''confidence'', ''gameTime'', ''player'', ''line'', ''predictedValue'']"
  shows "GET rt searchParams h = GET rt (searchParams(''sortBy'' \<mapsto> ''confidence'')) h
         \<and> (searchParams ''sortOrder'' \<noteq> Some ''asc'' \<longrightarrow>
              GET rt searchParams h =
              GET rt (searchParams(''sortBy'' \<mapsto> ''confidence'', ''sortOrder'' \<mapsto> ''desc'')) h)"
proof -
  have by': "orElse (searchParams ''sortBy'') ''confidence'' = s \<or> s = []"
    using assms(1) by (auto simp: orElse_def whenTruthy_def)
  have c1: "compareFn rt (orElse (searchParams ''sortBy'') ''confidence'') ord
          = compareFn rt ''confidence'' ord" for ord
    using by' compareFn_unknown [OF assms(2)] assms(1)
    by (auto simp: orElse_def whenTruthy_def)
  have o1: "orElse (Some ''confidence'') ''confidence'' = ''confidence''"
    and o2: "orElse (Some ''desc'') ''desc'' = ''desc''"
    by (simp_all add: orElse_def whenTruthy_def)
  have s1: "applySorting rt searchParams = applySorting rt (searchParams(''sortBy'' \<mapsto> ''confidence''))"
    by (intro ext) (simp add: applySorting_def c1 o1)
  have "predictionsCase rt searchParams h
      = predictionsCase rt (searchParams(''sortBy'' \<mapsto> ''confidence'')) h"
    by (simp only: predictionsCase_def applyFilters_sortBy applyPagination_sortBy s1 [symmetric])
  then have g1: "GET rt searchParams h = GET rt (searchParams(''sortBy'' \<mapsto> ''confidence'')) h"
    by (simp add: GET_def Let_def)
  have g2: "GET rt (searchParams(''sortBy'' \<mapsto> ''confidence'')) h =
            GET rt (searchParams(''sortBy'' \<mapsto> ''confidence'', ''sortOrder'' \<mapsto> ''desc'')) h"
    if "searchParams ''sortOrder'' \<noteq> Some ''asc''"
  proof -
    have "orElse (searchParams ''sortOrder'') ''desc'' \<noteq> ''asc''"
      using that by (auto simp: orElse_def whenTruthy_def split: option.splits)
    from compareFn_not_asc [OF this]
    have "compareFn rt ''confidence'' (orElse (searchParams ''sortOrder'') ''desc'')
        = compareFn rt ''confidence'' ''desc''" .
    then have "applySorting rt (searchParams(''sortBy'' \<mapsto> ''confidence''))
        = applySorting rt (searchParams(''sortBy'' \<mapsto> ''confidence'', ''sortOrder'' \<mapsto> ''desc''))"
      by (intro ext) (simp add: applySorting_def o1 o2)
    then have "predictionsCase rt (searchParams(''sortBy'' \<mapsto> ''confidence'')) h
      = predictionsCase rt (searchParams(''sortBy'' \<mapsto> ''confidence'', ''sortOrder'' \<mapsto> ''desc'')) h"
      by (simp only: predictionsCase_def applyFilters_sortOrder applyPagination_sortOrder)
    then show ?thesis
      by (simp add: GET_def Let_def)
  qed
  from g1 g2 show ?thesis by simp
qed

text \<open>The field \<open>popularity\<close> does not exist: without a \<open>sortOrder\<close> the answer is that
  of the default sort, and with \<open>sortOrder=asc\<close> that of \<open>sortBy=confidence\<close>.\<close>

theorem unknown_sortBy_is_confidence_witness:
  "GET plainRuntime unknownSortQuery initialHeap
     = GET plainRuntime (unknownSortQuery(''sortBy'' \<mapsto> ''confidence'', ''sortOrder'' \<mapsto> ''desc'')) initialHeap
   \<and> GET plainRuntime unknownSortAscQuery initialHeap
     = GET plainRuntime (unknownSortAscQuery(''sortBy'' \<mapsto> ''confidence'')) initialHeap"
proof -
  have a: "unknownSortQuery ''sortBy'' = Some ''popularity''"
    and b: "unknownSortAscQuery ''sortBy'' = Some ''popularity''"
    and c: "unknownSortQuery ''sortOrder'' \<noteq> Some ''asc''"
    by (simp_all add: query_def unknownSortQuery_def unknownSortAscQuery_def)
  have d: "''popularity'' \<notin> set [''confidence'', ''gameTime'', ''player'', ''line'', ''predictedValue'']"
    by simp
  from unknown_sortBy_is_confidence [where searchParams = unknownSortQuery
      and s = "''popularity''" and rt = plainRuntime and h = initialHeap]
    unknown_sortBy_is_confidence [where searchParams = unknownSortAscQuery
      and s = "''popularity''" and rt = plainRuntime and h = initialHeap] a b c d
  show ?thesis by blast
qed

text \<open>The claim of C2 that the default order is kept whatever the \<open>sortOrder\<close> fails:
  with \<open>sortBy=popularity\<close> and \<open>sortOrder=asc\<close> the first page starts with the
  lowest confidence, not with the highest.\<close>

theorem unknown_sortBy_asc_counterexample:
  "fst (GET plainRuntime unknownSortAscQuery initialHeap) =
     Inr (PredictionsJson
       \<lparr>predictions = [prediction6, prediction11, prediction9],
        total = 14, page = Some 1, limit = Some 3, totalPages = Some 5\<rparr>)
   \<and> fst (GET plainRuntime defaultSortQuery initialHeap) =
     Inr (PredictionsJson
       \<lparr>predictions = [prediction2, prediction3, prediction12],
        total = 14, page = Some 1, limit = Some 3, totalPages = Some 5\<rparr>)"
  by (simp add: eval_defs unknownSortAscQuery_def defaultSortQuery_def fields)



section \<open>The summary\<close>

text \<open>
  C6. The summary computes \<open>featuredPredictions\<close> from the whole snapshot, whatever
  else the request holds: the records with a confidence of at least 80, by descending
  confidence, cut to the first three; so they are at most three.
\<close>

theorem featured_is_top_three:
  assumes "searchParams ''endpoint'' = Some ''summary''" and "mockPredictions < length h"
  shows "\<exists>s h'. GET rt searchParams h = (Inr (SummaryJson s), h')
           \<and> featuredPredictions s = featuredSpec (h ! mockPredictions)
           \<and> length (featuredPredictions s) \<le> 3"
proof -
  obtain s1 h1 where b1: "breakdown sport [''NBA'', ''NFL'', ''MLB'', ''NHL'', ''Soccer''] h = (s1, h1)"
    by (cases "breakdown sport [''NBA'', ''NFL'', ''MLB'', ''NHL'', ''Soccer''] h")
  obtain s2 h2 where b2: "breakdown confidenceCategory
       [''Very High'', ''High'', ''Moderate'', ''Low'', ''Very Low''] h1 = (s2, h2)"
    by (cases "breakdown confidenceCategory
       [''Very High'', ''High'', ''Moderate'', ''Low'', ''Very Low''] h1")
  obtain s3 h3 where b3: "featured h2 = (s3, h3)"
    by (cases "featured h2")
  from breakdown_snapshot [OF assms(2), of sport "[''NBA'', ''NFL'', ''MLB'', ''NHL'', ''Soccer'']"] b1
  have m1: "mockPredictions < length h1" and c1: "h1 ! mockPredictions = h ! mockPredictions"
    by simp_all
  from breakdown_snapshot [OF m1, of confidenceCategory
      "[''Very High'', ''High'', ''Moderate'', ''Low'', ''Very Low'']"] b2
  have m2: "mockPredictions < length h2" and c2: "h2 ! mockPredictions = h1 ! mockPredictions"
    by simp_all
  from featured_value [OF m2] b3 c1 c2 have s3: "s3 = featuredSpec (h ! mockPredictions)"
    by simp
  have "length (featuredSpec (h ! mockPredictions)) \<le> 3"
    by (simp add: featuredSpec_def)
  with s3 b1 b2 b3 assms(1) show ?thesis
    by (simp add: GET_def summaryCase_def)
qed

text \<open>The three featured records of the data of the module, the request asking for a
  sport in vain.\<close>

theorem featured_is_top_three_witness:
  "\<exists>s h'. GET plainRuntime summaryQuery initialHeap = (Inr (SummaryJson s), h')
      \<and> featuredPredictions s = [prediction2, prediction3, prediction12]"
proof -
  have e: "summaryQuery ''endpoint'' = Some ''summary''"
    by (simp add: summaryQuery_def query_def)
  have m: "mockPredictions < length initialHeap"
    by (simp add: mockPredictions_def initialHeap_def)
  have "featuredSpec (initialHeap ! mockPredictions) = [prediction2, prediction3, prediction12]"
    by (simp add: featuredSpec_def initialHeap_def mockPredictions_def mockData_def fields)
  with featured_is_top_three [where searchParams = summaryQuery and h = initialHeap
      and rt = plainRuntime] e m
  show ?thesis by auto
qed

section \<open>The snapshot\<close>

text \<open>
  C9. The handler never changes the snapshot: whatever the request, the array
  \<open>mockPredictions\<close> holds the same records in the same order afterwards, and so does
  every array that existed before. The filters allocate new arrays, and the one array
  that is sorted in place is the copy or a result of a filter.
\<close>

theorem snapshot_unchanged:
  assumes "mockPredictions < length h"
  shows "snd (GET rt searchParams h) ! mockPredictions = h ! mockPredictions
         \<and> take (length h) (snd (GET rt searchParams h)) = h"
  using GET_prefix [OF assms, of rt searchParams] assms
  by (auto simp: prefix_def nth_append)

text \<open>After a query for the NBA the array \<open>mockPredictions\<close> holds the data of the
  module.\<close>

theorem snapshot_unchanged_witness:
  "snd (GET plainRuntime nbaPage99Query initialHeap) ! mockPredictions = mockData"
proof -
  have "mockPredictions < length initialHeap"
    by (simp add: mockPredictions_def initialHeap_def)
  from snapshot_unchanged [OF this, of plainRuntime nbaPage99Query] show ?thesis
    by (simp add: initialHeap_def mockPredictions_def)
qed

end
